theory Spec2Isabelle
  imports Main
begin

section \<open>The durable store (config/database.js)\<close>

text \<open>
  The SQLite schema of \<^verbatim>\<open>initDatabase\<close>, one record per table row and one list per
  table, in insertion order. Identifiers are SQLite INTEGERs (\<open>int\<close>), timestamps are
  clock readings (\<open>nat\<close>), nullable columns are options. Only the columns that the
  modelled queries read or write are kept; the surrogate \<^verbatim>\<open>id\<close> columns of
  \<^verbatim>\<open>group_members\<close>, \<^verbatim>\<open>message_tags\<close> and \<^verbatim>\<open>message_status\<close> are never selected by
  any query of the repository and are left out.
\<close>

record user_row =
  u_id :: int
  u_name :: string
  u_role :: string

record group_row =
  g_id :: int
  g_created_by :: "int option"

record member_row =
  gm_group_id :: int
  gm_user_id :: int
  gm_role :: string

record message_row =
  m_id :: int
  m_sender_id :: int
  m_group_id :: int
  m_content :: string
  m_type :: string
  m_reply_to :: "int option"
  m_edited_at :: "nat option"
  m_created_at :: nat

record tag_row =
  mt_message_id :: int
  mt_tag_type :: string
  mt_tag_value :: "string option"
  mt_created_by :: int

record status_row =
  ms_message_id :: int
  ms_user_id :: int
  ms_read_at :: "nat option"
  ms_delivered_at :: "nat option"

text \<open>\<open>message_seq\<close> is the AUTOINCREMENT counter of the \<^verbatim>\<open>messages\<close> table.\<close>

record database =
  users :: "user_row list"
  groups :: "group_row list"
  group_members :: "member_row list"
  messages :: "message_row list"
  message_seq :: int
  message_tags :: "tag_row list"
  message_status :: "status_row list"

section \<open>Group access (middleware/auth.js)\<close>

text \<open>The row selected by the query of \<^verbatim>\<open>canAccessGroup\<close>.\<close>

record membership =
  role :: string
  created_by :: "int option"
  user_role :: string

text \<open>
  \<^verbatim>\<open>SELECT gm.role, g.created_by, u.role as user_role FROM group_members gm
  JOIN groups g ON gm.group_id = g.id JOIN users u ON gm.user_id = u.id
  WHERE gm.user_id = ? AND gm.group_id = ?\<close>: all rows of the join.
\<close>

definition membership_rows :: "database \<Rightarrow> int \<Rightarrow> int \<Rightarrow> membership list" where
  "membership_rows db userId groupId =
     [\<lparr>role = gm_role gm, created_by = g_created_by g, user_role = u_role u\<rparr>.
        gm \<leftarrow> group_members db, g \<leftarrow> groups db, u \<leftarrow> users db,
        gm_group_id gm = g_id g, gm_user_id gm = u_id u,
        gm_user_id gm = userId \<and> gm_group_id gm = groupId]"

text \<open>\<^verbatim>\<open>getQuery\<close> resolves to the first row, or to \<^verbatim>\<open>undefined\<close> when there is none.\<close>

definition getQuery :: "'a list \<Rightarrow> 'a option" where
  "getQuery rows = (case rows of [] \<Rightarrow> None | r # _ \<Rightarrow> Some r)"

text \<open>
  The body of \<^verbatim>\<open>canAccessGroup\<close> after the query. The argument is the outcome of the
  awaited query: \<open>Inl ()\<close> when the storage call rejects (the \<^verbatim>\<open>catch\<close> answers false),
  \<open>Inr None\<close> when no row matches, \<open>Inr (Some m)\<close> otherwise. Every caller passes the
  action, so the parameter's default (read) is not modelled.
\<close>

definition decideAccess :: "unit + membership option \<Rightarrow> int \<Rightarrow> string \<Rightarrow> bool" where
  "decideAccess q userId action =
     (case q of
        Inl _ \<Rightarrow> False
      | Inr None \<Rightarrow> False
      | Inr (Some m) \<Rightarrow>
          if user_role m = ''admin'' then True
          else if created_by m = Some userId then True
          else if action = ''read'' then True
          else if action = ''write'' then True
          else if action = ''delete'' then role m \<in> set [''admin'', ''moderator'']
          else if action = ''manage'' then role m \<in> set [''admin'', ''moderator'']
          else False)"

definition canAccessGroup :: "database \<Rightarrow> int \<Rightarrow> int \<Rightarrow> string \<Rightarrow> bool" where
  "canAccessGroup db userId groupId action =
     decideAccess (Inr (getQuery (membership_rows db userId groupId))) userId action"

text \<open>A membership row of the user for the group, as the spec speaks of it.\<close>

definition has_membership_row :: "database \<Rightarrow> int \<Rightarrow> int \<Rightarrow> bool" where
  "has_membership_row db userId groupId =
     list_ex (\<lambda>gm. gm_user_id gm = userId \<and> gm_group_id gm = groupId) (group_members db)"

section \<open>Storage calls and their failures\<close>

text \<open>
  \<^verbatim>\<open>runQuery\<close>, \<^verbatim>\<open>getQuery\<close> and \<^verbatim>\<open>allQuery\<close> reject when SQLite reports an error.
  Whether a call rejects for a reason outside the store (I/O error, locked file) is an
  input of the model: a handler takes a list of booleans, one per storage call it makes,
  in order; \<open>True\<close> means that call rejects. Calls beyond the end of the list succeed.
  \<^verbatim>\<open>db.run\<close> is called outside any transaction, so each statement commits on its own.
\<close>

fun next_fault :: "bool list \<Rightarrow> bool \<times> bool list" where
  "next_fault [] = (False, [])"
| "next_fault (f # fs) = (f, fs)"

text \<open>
  An HTTP answer: \<open>Reply code body\<close> for \<^verbatim>\<open>res.status(code).json(body)\<close> with a result,
  \<open>Refuse code\<close> for the error answers (400, 403, 404, 500).
\<close>

datatype 'a response = Reply nat 'a | Refuse nat

section \<open>Message routes (routes/messages.js)\<close>

subsection \<open>Create message: POST /\<close>

text \<open>
  An element of the \<^verbatim>\<open>tags\<close> array of the request body. The validator only asks for an
  array, so an element is any JSON value: a string, an object (its \<^verbatim>\<open>type\<close> and
  \<^verbatim>\<open>value\<close> properties, taken to be strings when present), \<^verbatim>\<open>null\<close>, or a number,
  boolean or array (\<open>TagOther\<close>, whose \<^verbatim>\<open>type\<close> property is undefined).
\<close>

datatype tag_input =
    TagString string
  | TagObject "string option" "string option"
  | TagNull
  | TagOther

text \<open>
  The request body. \<^verbatim>\<open>groupId\<close> and \<^verbatim>\<open>replyTo\<close> are validated with \<^verbatim>\<open>isInt\<close> and
  \<^verbatim>\<open>tags\<close> with \<^verbatim>\<open>isArray\<close>; the record holds bodies that pass these three checks.
\<close>

record message_data =
  md_groupId :: int
  md_content :: string
  md_type :: "string option"
  md_replyTo :: "int option"
  md_tags :: "tag_input list option"

definition is_space :: "char \<Rightarrow> bool" where
  "is_space c = (c \<in> set [CHR '' '', CHR 0x09, CHR 0x0A, CHR 0x0B, CHR 0x0C, CHR 0x0D])"

definition trim :: "string \<Rightarrow> string" where
  "trim s = rev (dropWhile is_space (rev (dropWhile is_space s)))"

text \<open>
  The remaining validators: \<^verbatim>\<open>content\<close> has 1 to 5000 characters (checked before the
  \<^verbatim>\<open>trim\<close> sanitizer), \<^verbatim>\<open>type\<close> is optional and one of four kinds.
\<close>

definition create_validation :: "message_data \<Rightarrow> bool" where
  "create_validation rq =
     (1 \<le> length (md_content rq) \<and> length (md_content rq) \<le> 5000 \<and>
      (case md_type rq of None \<Rightarrow> True
       | Some t \<Rightarrow> t \<in> set [''text'', ''file'', ''image'', ''form'']))"

text \<open>AUTOINCREMENT: one more than the largest id the table ever held.\<close>

definition next_message_id :: "database \<Rightarrow> int" where
  "next_message_id db = fold max (map m_id (messages db)) (message_seq db) + 1"

text \<open>
  \<^verbatim>\<open>INSERT INTO messages (sender_id, group_id, content, type, reply_to)\<close> with the
  values \<^verbatim>\<open>[req.user.id, groupId, content, type, replyTo || null]\<close>, where
  \<^verbatim>\<open>type\<close> defaults to text; \<^verbatim>\<open>created_at\<close> is the current time.
\<close>

definition new_message_row :: "nat \<Rightarrow> user_row \<Rightarrow> message_data \<Rightarrow> database \<Rightarrow> message_row" where
  "new_message_row now user rq db =
     \<lparr>m_id = next_message_id db, m_sender_id = u_id user, m_group_id = md_groupId rq,
      m_content = trim (md_content rq),
      m_type = (case md_type rq of None \<Rightarrow> ''text'' | Some t \<Rightarrow> t),
      m_reply_to = (case md_replyTo rq of None \<Rightarrow> None
                    | Some r \<Rightarrow> if r = 0 then None else Some r),
      m_edited_at = None, m_created_at = now\<rparr>"

definition insert_message :: "nat \<Rightarrow> user_row \<Rightarrow> message_data \<Rightarrow> database \<Rightarrow> database" where
  "insert_message now user rq db =
     db\<lparr>messages := messages db @ [new_message_row now user rq db],
        message_seq := next_message_id db\<rparr>"

text \<open>
  \<^verbatim>\<open>INSERT INTO message_tags\<close>. The table has no UNIQUE constraint besides its own
  primary key, so the insert never conflicts; this also holds for the
  \<^verbatim>\<open>INSERT OR IGNORE\<close> of the add-tags route.
\<close>

definition insert_tag :: "int \<Rightarrow> string \<Rightarrow> string option \<Rightarrow> int \<Rightarrow> database \<Rightarrow> database" where
  "insert_tag mid ty val uid db =
     db\<lparr>message_tags := message_tags db @
           [\<lparr>mt_message_id = mid, mt_tag_type = ty, mt_tag_value = val,
             mt_created_by = uid\<rparr>]\<rparr>"

text \<open>JavaScript truthiness of an optional string, and \<^verbatim>\<open>v || null\<close>.\<close>

definition truthy :: "string option \<Rightarrow> bool" where
  "truthy v = (case v of None \<Rightarrow> False | Some s \<Rightarrow> s \<noteq> [])"

definition or_null :: "string option \<Rightarrow> string option" where
  "or_null v = (if truthy v then v else None)"

text \<open>
  The loop over \<^verbatim>\<open>tags\<close> of the create route. It returns whether an exception was
  thrown, the store and the remaining fault list. A string is inserted as it is, an
  object with a truthy \<^verbatim>\<open>type\<close> is inserted with its value, \<^verbatim>\<open>null\<close> throws a
  TypeError at \<^verbatim>\<open>tag.type\<close>, anything else is skipped.
\<close>

fun insert_tags ::
  "int \<Rightarrow> int \<Rightarrow> tag_input list \<Rightarrow> database \<Rightarrow> bool list \<Rightarrow> bool \<times> database \<times> bool list" where
  "insert_tags mid uid [] db fs = (False, db, fs)"
| "insert_tags mid uid (TagString s # ts) db fs =
     (case next_fault fs of
        (True, fs') \<Rightarrow> (True, db, fs')
      | (False, fs') \<Rightarrow> insert_tags mid uid ts (insert_tag mid s None uid db) fs')"
| "insert_tags mid uid (TagObject ty val # ts) db fs =
     (if truthy ty then
        (case next_fault fs of
           (True, fs') \<Rightarrow> (True, db, fs')
         | (False, fs') \<Rightarrow>
             insert_tags mid uid ts (insert_tag mid (the ty) (or_null val) uid db) fs')
      else insert_tags mid uid ts db fs)"
| "insert_tags mid uid (TagNull # ts) db fs = (True, db, fs)"
| "insert_tags mid uid (TagOther # ts) db fs = insert_tags mid uid ts db fs"

text \<open>
  The fan-out statement:
  \<^verbatim>\<open>INSERT INTO message_status (message_id, user_id, delivered_at, read_at)
  SELECT ?, gm.user_id, CURRENT_TIMESTAMP,
  CASE WHEN gm.user_id = ? THEN CURRENT_TIMESTAMP ELSE NULL END
  FROM group_members gm WHERE gm.group_id = ?\<close>.
\<close>

definition fanout_rows :: "nat \<Rightarrow> int \<Rightarrow> int \<Rightarrow> int \<Rightarrow> database \<Rightarrow> status_row list" where
  "fanout_rows now mid sender gid db =
     map (\<lambda>gm. \<lparr>ms_message_id = mid, ms_user_id = gm_user_id gm,
                 ms_read_at = (if gm_user_id gm = sender then Some now else None),
                 ms_delivered_at = Some now\<rparr>)
         (filter (\<lambda>gm. gm_group_id gm = gid) (group_members db))"

definition status_key :: "status_row \<Rightarrow> int \<times> int" where
  "status_key r = (ms_message_id r, ms_user_id r)"

text \<open>
  \<^verbatim>\<open>UNIQUE(message_id, user_id)\<close>: a plain INSERT that would break it fails as a whole
  and stores nothing (\<open>None\<close>).
\<close>

definition insert_status :: "status_row list \<Rightarrow> database \<Rightarrow> database option" where
  "insert_status rows db =
     (if distinct (map status_key rows) \<and>
         \<not> list_ex (\<lambda>r. status_key r \<in> set (map status_key (message_status db))) rows
      then Some (db\<lparr>message_status := message_status db @ rows\<rparr>)
      else None)"

text \<open>
  The last query of the route reads the new message joined with its sender
  (\<^verbatim>\<open>FROM messages m JOIN users u ON m.sender_id = u.id WHERE m.id = ?\<close>); without a row
  the access to \<^verbatim>\<open>newMessage.id\<close> throws.
\<close>

definition message_with_sender :: "database \<Rightarrow> int \<Rightarrow> (message_row \<times> user_row) list" where
  "message_with_sender db mid =
     [(m, u). m \<leftarrow> messages db, u \<leftarrow> users db, m_sender_id m = u_id u, m_id m = mid]"

text \<open>
  The storage part of the route, from the insert of the message row on. Every exception
  ends in the route's \<^verbatim>\<open>catch\<close>, which answers 500 and undoes nothing. The body of the
  201 answer is cut down to the id of the new message.
\<close>

definition store_message ::
  "nat \<Rightarrow> user_row \<Rightarrow> message_data \<Rightarrow> database \<Rightarrow> bool list \<Rightarrow> int response \<times> database" where
  "store_message now user rq db fs =
     (case next_fault fs of
        (True, _) \<Rightarrow> (Refuse 500, db)
      | (False, fs1) \<Rightarrow>
          let messageId = next_message_id db;
              db1 = insert_message now user rq db
          in (case insert_tags messageId (u_id user)
                     (case md_tags rq of None \<Rightarrow> [] | Some ts \<Rightarrow> ts) db1 fs1 of
                (True, db2, _) \<Rightarrow> (Refuse 500, db2)
              | (False, db2, fs2) \<Rightarrow>
                  (case next_fault fs2 of
                     (True, _) \<Rightarrow> (Refuse 500, db2)
                   | (False, fs3) \<Rightarrow>
                       (case insert_status
                               (fanout_rows now messageId (u_id user) (md_groupId rq) db2) db2 of
                          None \<Rightarrow> (Refuse 500, db2)
                        | Some db3 \<Rightarrow>
                            (case next_fault fs3 of
                               (True, _) \<Rightarrow> (Refuse 500, db3)
                             | (False, _) \<Rightarrow>
                                 (case getQuery (message_with_sender db3 messageId) of
                                    None \<Rightarrow> (Refuse 500, db3)
                                  | Some _ \<Rightarrow> (Reply 201 messageId, db3)))))))"

text \<open>
  The check of the reply target, \<^verbatim>\<open>SELECT id FROM messages WHERE id = ? AND group_id = ?\<close>,
  made only when \<^verbatim>\<open>replyTo\<close> is truthy (present and not 0).
\<close>

definition reply_target :: "database \<Rightarrow> int \<Rightarrow> int \<Rightarrow> int option" where
  "reply_target db r gid =
     getQuery (map m_id (filter (\<lambda>m. m_id m = r \<and> m_group_id m = gid) (messages db)))"

definition create_message ::
  "nat \<Rightarrow> user_row \<Rightarrow> message_data \<Rightarrow> database \<Rightarrow> bool list \<Rightarrow> int response \<times> database" where
  "create_message now user rq db fs =
     (if \<not> create_validation rq then (Refuse 400, db)
      else
        (case next_fault fs of
           (f0, fs0) \<Rightarrow>
             if \<not> decideAccess
                    (if f0 then Inl ()
                     else Inr (getQuery (membership_rows db (u_id user) (md_groupId rq))))
                    (u_id user) ''write''
             then (Refuse 403, db)
             else
               (case md_replyTo rq of
                  None \<Rightarrow> store_message now user rq db fs0
                | Some r \<Rightarrow>
                    if r = 0 then store_message now user rq db fs0
                    else
                      (case next_fault fs0 of
                         (True, _) \<Rightarrow> (Refuse 500, db)
                       | (False, fs1) \<Rightarrow>
                           (case reply_target db r (md_groupId rq) of
                              None \<Rightarrow> (Refuse 400, db)
                            | Some _ \<Rightarrow> store_message now user rq db fs1)))))"

subsection \<open>Add tags: POST /:messageId/tags\<close>

definition validTags :: "string list" where
  "validTags = [''urgent'', ''follow-up'', ''financial'', ''logistics'', ''medical'', ''security'']"

text \<open>
  The access check shared by the add-tags and the status route:
  \<^verbatim>\<open>SELECT m.id FROM messages m JOIN group_members gm ON m.group_id = gm.group_id
  WHERE m.id = ? AND gm.user_id = ?\<close>.
\<close>

definition message_access :: "database \<Rightarrow> int \<Rightarrow> int \<Rightarrow> int list" where
  "message_access db mid uid =
     [m_id m. m \<leftarrow> messages db, gm \<leftarrow> group_members db,
        m_group_id m = gm_group_id gm, m_id m = mid \<and> gm_user_id gm = uid]"

text \<open>
  The loop of the add-tags route: a tag of \<open>validTags\<close> is inserted with
  \<^verbatim>\<open>INSERT OR IGNORE INTO message_tags (message_id, tag_type, created_by)\<close>, any other
  tag is skipped. The result says whether a storage call rejected.
\<close>

fun add_valid_tags :: "int \<Rightarrow> int \<Rightarrow> string list \<Rightarrow> database \<Rightarrow> bool list \<Rightarrow> bool \<times> database" where
  "add_valid_tags mid uid [] db fs = (False, db)"
| "add_valid_tags mid uid (tag # ts) db fs =
     (if tag \<in> set validTags then
        (case next_fault fs of
           (True, _) \<Rightarrow> (True, db)
         | (False, fs') \<Rightarrow> add_valid_tags mid uid ts (insert_tag mid tag None uid db) fs')
      else add_valid_tags mid uid ts db fs)"

text \<open>
  The route. The body is an array of strings with at least one element (anything else
  is answered with 400); the 200 answer lists the tags of the request that are valid.
\<close>

definition add_tags ::
  "user_row \<Rightarrow> int \<Rightarrow> string list \<Rightarrow> database \<Rightarrow> bool list \<Rightarrow> string list response \<times> database" where
  "add_tags user mid ts db fs =
     (if ts = [] then (Refuse 400, db)
      else
        (case next_fault fs of
           (True, _) \<Rightarrow> (Refuse 500, db)
         | (False, fs1) \<Rightarrow>
             (case getQuery (message_access db mid (u_id user)) of
                None \<Rightarrow> (Refuse 404, db)
              | Some _ \<Rightarrow>
                  (case add_valid_tags mid (u_id user) ts db fs1 of
                     (True, db') \<Rightarrow> (Refuse 500, db')
                   | (False, db') \<Rightarrow>
                       (Reply 200 (filter (\<lambda>tag. tag \<in> set validTags) ts), db')))))"

subsection \<open>Message status: GET /:messageId/status\<close>

record read_status =
  rs_userId :: int
  rs_userName :: string
  rs_readAt :: "nat option"
  rs_deliveredAt :: "nat option"

text \<open>
  \<^verbatim>\<open>SELECT u.id, u.name, ms.read_at, ms.delivered_at FROM message_status ms
  JOIN users u ON ms.user_id = u.id WHERE ms.message_id = ? ORDER BY ms.read_at DESC\<close>.
  NULL sorts below every timestamp; SQL leaves the order of equal keys open, the model
  takes the reverse of a stable ascending sort.
\<close>

definition read_key :: "nat option \<Rightarrow> nat" where
  "read_key t = (case t of None \<Rightarrow> 0 | Some n \<Rightarrow> Suc n)"

definition status_rows :: "database \<Rightarrow> int \<Rightarrow> read_status list" where
  "status_rows db mid =
     rev (sort_key (\<lambda>r. read_key (rs_readAt r))
       [\<lparr>rs_userId = u_id u, rs_userName = u_name u, rs_readAt = ms_read_at ms,
          rs_deliveredAt = ms_delivered_at ms\<rparr>.
          ms \<leftarrow> message_status db, u \<leftarrow> users db,
          ms_user_id ms = u_id u, ms_message_id ms = mid])"

text \<open>The 200 answer is \<^verbatim>\<open>{ messageId, readBy }\<close>; there is no tag in it.\<close>

definition get_message_status ::
  "user_row \<Rightarrow> int \<Rightarrow> database \<Rightarrow> bool list \<Rightarrow> (int \<times> read_status list) response" where
  "get_message_status user mid db fs =
     (case next_fault fs of
        (True, _) \<Rightarrow> Refuse 500
      | (False, fs1) \<Rightarrow>
          (case getQuery (message_access db mid (u_id user)) of
             None \<Rightarrow> Refuse 404
           | Some _ \<Rightarrow>
               (case next_fault fs1 of
                  (True, _) \<Rightarrow> Refuse 500
                | (False, _) \<Rightarrow> Reply 200 (mid, status_rows db mid))))"

subsection \<open>List messages: GET /group/:groupId\<close>

text \<open>
  JavaScript \<^verbatim>\<open>s.split(c)\<close> for a one-character separator: the pieces between the
  separators, at least one piece.
\<close>

fun js_split :: "char \<Rightarrow> string \<Rightarrow> string list" where
  "js_split c [] = [[]]"
| "js_split c (x # xs) =
     (if x = c then [] # js_split c xs
      else (case js_split c xs of [] \<Rightarrow> [[x]] | p # ps \<Rightarrow> (x # p) # ps))"

text \<open>
  SQLite \<^verbatim>\<open>GROUP_CONCAT\<close> with the default separator: NULL over no value, the values
  joined by commas otherwise.
\<close>

fun group_concat :: "string list \<Rightarrow> string option" where
  "group_concat [] = None"
| "group_concat (x # xs) =
     Some (case group_concat xs of None \<Rightarrow> x | Some r \<Rightarrow> x @ CHR '','' # r)"

text \<open>
  \<^verbatim>\<open>GROUP_CONCAT(mt.tag_type || ':' || COALESCE(mt.tag_value, ''))\<close> over the tags of one
  message (the LEFT JOIN gives NULL for a message without tags).
\<close>

definition tags_column :: "database \<Rightarrow> int \<Rightarrow> string option" where
  "tags_column db mid =
     group_concat
       (map (\<lambda>t. mt_tag_type t @ CHR '':'' # (case mt_tag_value t of None \<Rightarrow> [] | Some v \<Rightarrow> v))
            (filter (\<lambda>t. mt_message_id t = mid) (message_tags db)))"

record tag_view =
  tv_type :: string
  tv_value :: "string option"

text \<open>
  \<^verbatim>\<open>const [type, value] = tag.split(':'); return { type, value: value || null }\<close>.
\<close>

definition parse_tag :: "string \<Rightarrow> tag_view" where
  "parse_tag t =
     (case js_split CHR '':'' t of
        [] \<Rightarrow> \<lparr>tv_type = [], tv_value = None\<rparr>
      | ty # rest \<Rightarrow>
          \<lparr>tv_type = ty,
           tv_value = (case rest of [] \<Rightarrow> None | v # _ \<Rightarrow> if v = [] then None else Some v)\<rparr>)"

text \<open>
  \<^verbatim>\<open>msg.tags ? msg.tags.split(',').map(...).filter(tag => tag.type) : []\<close>.
\<close>

definition view_tags :: "string option \<Rightarrow> tag_view list" where
  "view_tags col =
     (case col of
        None \<Rightarrow> []
      | Some s \<Rightarrow>
          if s = [] then []
          else filter (\<lambda>t. tv_type t \<noteq> []) (map parse_tag (js_split CHR '','' s)))"

record message_view =
  mv_id :: int
  mv_content :: string
  mv_type :: string
  mv_replyTo :: "int option"
  mv_timestamp :: nat
  mv_editedAt :: "nat option"
  mv_sender :: user_row
  mv_tags :: "tag_view list"

definition format_message :: "database \<Rightarrow> message_row \<times> user_row \<Rightarrow> message_view" where
  "format_message db mu =
     (case mu of
        (m, u) \<Rightarrow>
          \<lparr>mv_id = m_id m, mv_content = m_content m, mv_type = m_type m,
           mv_replyTo = m_reply_to m, mv_timestamp = m_created_at m,
           mv_editedAt = m_edited_at m, mv_sender = u,
           mv_tags = view_tags (tags_column db (m_id m))\<rparr>)"

text \<open>
  The query string: \<^verbatim>\<open>limit\<close> (validated to lie in 1..100), \<^verbatim>\<open>offset\<close> (at least 0)
  and \<^verbatim>\<open>since\<close>, all optional.
\<close>

record list_query =
  lq_limit :: "nat option"
  lq_offset :: "nat option"
  lq_since :: "nat option"

definition list_validation :: "list_query \<Rightarrow> bool" where
  "list_validation q = (case lq_limit q of None \<Rightarrow> True | Some l \<Rightarrow> 1 \<le> l \<and> l \<le> 100)"

text \<open>\<^verbatim>\<open>parseInt(x) || d\<close>.\<close>

definition or_default :: "nat option \<Rightarrow> nat \<Rightarrow> nat" where
  "or_default x d = (case x of None \<Rightarrow> d | Some n \<Rightarrow> if n = 0 then d else n)"

text \<open>
  The page of the list query: the messages of the group joined with their senders,
  newer than \<^verbatim>\<open>since\<close> when it is given, \<^verbatim>\<open>ORDER BY m.created_at DESC LIMIT ? OFFSET ?\<close>
  (equal timestamps in the reverse of a stable ascending sort).
\<close>

definition page_rows :: "database \<Rightarrow> int \<Rightarrow> list_query \<Rightarrow> (message_row \<times> user_row) list" where
  "page_rows db gid q =
     take (or_default (lq_limit q) 50)
       (drop (or_default (lq_offset q) 0)
         (rev (sort_key (\<lambda>mu. m_created_at (fst mu))
           [(m, u). m \<leftarrow> messages db, u \<leftarrow> users db, m_sender_id m = u_id u,
              m_group_id m = gid \<and>
              (case lq_since q of None \<Rightarrow> True | Some s \<Rightarrow> s < m_created_at m)])))"

text \<open>
  INSERT OR REPLACE of one row into \<^verbatim>\<open>message_status\<close>: the rows that conflict on
  \<^verbatim>\<open>UNIQUE(message_id, user_id)\<close> are deleted, then the row is inserted.
\<close>

definition replace_status :: "status_row \<Rightarrow> status_row list \<Rightarrow> status_row list" where
  "replace_status r tbl = filter (\<lambda>x. status_key x \<noteq> status_key r) tbl @ [r]"

text \<open>
  The batch read of the list route:
  \<^verbatim>\<open>INSERT OR REPLACE INTO message_status (message_id, user_id, read_at)
  SELECT m.id, ?, CURRENT_TIMESTAMP FROM messages m WHERE m.group_id = ? AND m.sender_id != ?\<close>.
  \<^verbatim>\<open>delivered_at\<close> is not listed and takes its default, the current time.
\<close>

definition batch_read_rows :: "nat \<Rightarrow> int \<Rightarrow> int \<Rightarrow> database \<Rightarrow> status_row list" where
  "batch_read_rows now uid gid db =
     map (\<lambda>m. \<lparr>ms_message_id = m_id m, ms_user_id = uid, ms_read_at = Some now,
                ms_delivered_at = Some now\<rparr>)
         (filter (\<lambda>m. m_group_id m = gid \<and> m_sender_id m \<noteq> uid) (messages db))"

definition batch_read :: "nat \<Rightarrow> int \<Rightarrow> int \<Rightarrow> database \<Rightarrow> database" where
  "batch_read now uid gid db =
     db\<lparr>message_status := fold replace_status (batch_read_rows now uid gid db) (message_status db)\<rparr>"

record pagination =
  pg_total :: nat
  pg_limit :: nat
  pg_offset :: nat
  pg_hasMore :: bool

text \<open>
  The route. \<^verbatim>\<open>requireGroupAccess('read')\<close> runs before the handler and answers 403;
  the handler then answers 400 on a validation error, runs the page query and the count
  query, marks the group's messages read for the caller, and answers with the page in
  chronological order.
\<close>

definition list_messages ::
  "nat \<Rightarrow> user_row \<Rightarrow> int \<Rightarrow> list_query \<Rightarrow> database \<Rightarrow> bool list \<Rightarrow>
     (message_view list \<times> pagination) response \<times> database" where
  "list_messages now user gid q db fs =
     (case next_fault fs of
        (f0, fs0) \<Rightarrow>
          if \<not> decideAccess
                 (if f0 then Inl () else Inr (getQuery (membership_rows db (u_id user) gid)))
                 (u_id user) ''read''
          then (Refuse 403, db)
          else if \<not> list_validation q then (Refuse 400, db)
          else
            (case next_fault fs0 of
               (True, _) \<Rightarrow> (Refuse 500, db)
             | (False, fs1) \<Rightarrow>
                 (case next_fault fs1 of
                    (True, _) \<Rightarrow> (Refuse 500, db)
                  | (False, fs2) \<Rightarrow>
                      (case next_fault fs2 of
                         (True, _) \<Rightarrow> (Refuse 500, db)
                       | (False, _) \<Rightarrow>
                           (Reply 200
                              (rev (map (format_message db) (page_rows db gid q)),
                               \<lparr>pg_total = length (filter (\<lambda>m. m_group_id m = gid) (messages db)),
                                pg_limit = or_default (lq_limit q) 50,
                                pg_offset = or_default (lq_offset q) 0,
                                pg_hasMore =
                                  (or_default (lq_offset q) 0 + or_default (lq_limit q) 50
                                     < length (filter (\<lambda>m. m_group_id m = gid) (messages db)))\<rparr>),
                            batch_read now (u_id user) gid db)))))"

section \<open>Socket layer (server.js)\<close>

text \<open>
  The message object that the \<^verbatim>\<open>send-message\<close> handler builds. Its \<^verbatim>\<open>id\<close> is
  \<^verbatim>\<open>Date.now()\<close> and its \<^verbatim>\<open>timestamp\<close> is the same clock as an ISO string; both are the
  clock reading handed to the handler.
\<close>

record chat_message =
  cm_id :: nat
  cm_senderId :: int
  cm_senderName :: string
  cm_groupId :: int
  cm_content :: string
  cm_type :: string
  cm_tags :: "tag_input list"
  cm_timestamp :: nat

text \<open>The outbound events with their payloads.\<close>

datatype event =
    NewMessage chat_message
  | MessageSent chat_message
  | MessageError
  | UserTyping int string int
  | UserStopTyping int int
  | MessageRead int int nat

text \<open>A connected socket: its id and the user that \<^verbatim>\<open>authenticateSocket\<close> attached.\<close>

record socket =
  sock_id :: nat
  sock_user :: user_row

record active_user =
  au_socketId :: nat
  au_user :: user_row
  au_lastSeen :: nat

text \<open>
  The server: the store, the two module-level maps \<^verbatim>\<open>activeUsers\<close> and \<^verbatim>\<open>userRooms\<close>,
  and what socket.io keeps: the connected sockets and, per socket id, the rooms joined.
\<close>

record server =
  sv_db :: database
  activeUsers :: "int \<rightharpoonup> active_user"
  userRooms :: "int \<rightharpoonup> int set"
  sockets :: "socket list"
  rooms :: "nat \<Rightarrow> string set"

text \<open>The room name \<^verbatim>\<open>`group_${groupId}`\<close>: the decimal numeral of the id after the prefix.\<close>

definition digit_char :: "nat \<Rightarrow> char" where
  "digit_char d = ''0123456789'' ! d"

fun digits :: "nat \<Rightarrow> string" where
  "digits n = (if n < 10 then [digit_char n] else digits (n div 10) @ [digit_char (n mod 10)])"

declare digits.simps [simp del]

definition room_name :: "int \<Rightarrow> string" where
  "room_name gid =
     ''group_'' @ (if gid < 0 then CHR ''-'' # digits (nat (- gid)) else digits (nat gid))"

text \<open>
  \<^verbatim>\<open>socket.to(room).emit(ev)\<close>: one delivery for every connected socket in the room
  except the emitting one. A delivery is the receiving socket's id with the event.
\<close>

definition broadcast :: "server \<Rightarrow> socket \<Rightarrow> string \<Rightarrow> event \<Rightarrow> (nat \<times> event) list" where
  "broadcast sv sock room ev =
     map (\<lambda>s. (sock_id s, ev))
       (filter (\<lambda>s. sock_id s \<noteq> sock_id sock \<and> room \<in> rooms sv (sock_id s)) (sockets sv))"

text \<open>The connection handler stores the user in \<^verbatim>\<open>activeUsers\<close>.\<close>

definition on_connection :: "nat \<Rightarrow> socket \<Rightarrow> server \<Rightarrow> server" where
  "on_connection now sock sv =
     sv\<lparr>activeUsers := (activeUsers sv)(u_id (sock_user sock) \<mapsto>
            \<lparr>au_socketId = sock_id sock, au_user = sock_user sock, au_lastSeen = now\<rparr>),
        sockets := sockets sv @ [sock]\<rparr>"

text \<open>
  One round of the loop of \<^verbatim>\<open>join-groups\<close>: \<^verbatim>\<open>socket.join\<close>, then the group id is
  added to the user's set in \<^verbatim>\<open>userRooms\<close> (created when missing). Nothing is read
  from the store.
\<close>

definition join_group :: "socket \<Rightarrow> int \<Rightarrow> server \<Rightarrow> server" where
  "join_group sock gid sv =
     sv\<lparr>rooms := (rooms sv)(sock_id sock := insert (room_name gid) (rooms sv (sock_id sock))),
        userRooms := (userRooms sv)(u_id (sock_user sock) \<mapsto>
            insert gid (case userRooms sv (u_id (sock_user sock)) of None \<Rightarrow> {} | Some s \<Rightarrow> s))\<rparr>"

text \<open>The inbound events; the payload of \<^verbatim>\<open>send-message\<close> may be missing.\<close>

datatype inbound =
    JoinGroups "int list"
  | SendMessage "message_data option"
  | TypingStart int
  | TypingStop int
  | MarkRead int int
  | Disconnect

definition outgoing_message :: "nat \<Rightarrow> socket \<Rightarrow> message_data \<Rightarrow> chat_message" where
  "outgoing_message now sock d =
     \<lparr>cm_id = now, cm_senderId = u_id (sock_user sock), cm_senderName = u_name (sock_user sock),
      cm_groupId = md_groupId d, cm_content = md_content d,
      cm_type = (case md_type d of None \<Rightarrow> ''text'' | Some t \<Rightarrow> t),
      cm_tags = (case md_tags d of None \<Rightarrow> [] | Some ts \<Rightarrow> ts),
      cm_timestamp = now\<rparr>"

text \<open>
  The handlers of one socket: the deliveries they cause and the server afterwards.
  \<open>MarkRead gid mid\<close> carries \<^verbatim>\<open>data.groupId\<close> and \<^verbatim>\<open>data.messageId\<close>. Destructuring a
  missing \<^verbatim>\<open>send-message\<close> payload throws inside the \<^verbatim>\<open>try\<close>, and the sender gets
  \<^verbatim>\<open>message-error\<close>. On disconnect the user's \<^verbatim>\<open>lastSeen\<close> is refreshed,
  the \<^verbatim>\<open>userRooms\<close> entry is deleted and socket.io drops the socket from its rooms.
\<close>

definition handle :: "nat \<Rightarrow> socket \<Rightarrow> inbound \<Rightarrow> server \<Rightarrow> (nat \<times> event) list \<times> server" where
  "handle now sock ev sv =
     (case ev of
        JoinGroups gids \<Rightarrow> ([], fold (join_group sock) gids sv)
      | SendMessage None \<Rightarrow> ([(sock_id sock, MessageError)], sv)
      | SendMessage (Some d) \<Rightarrow>
          (broadcast sv sock (room_name (md_groupId d)) (NewMessage (outgoing_message now sock d)) @
             [(sock_id sock, MessageSent (outgoing_message now sock d))], sv)
      | TypingStart gid \<Rightarrow>
          (broadcast sv sock (room_name gid)
             (UserTyping (u_id (sock_user sock)) (u_name (sock_user sock)) gid), sv)
      | TypingStop gid \<Rightarrow>
          (broadcast sv sock (room_name gid) (UserStopTyping (u_id (sock_user sock)) gid), sv)
      | MarkRead gid mid \<Rightarrow>
          (broadcast sv sock (room_name gid) (MessageRead mid (u_id (sock_user sock)) now), sv)
      | Disconnect \<Rightarrow>
          ([], sv\<lparr>activeUsers :=
                     (case activeUsers sv (u_id (sock_user sock)) of
                        None \<Rightarrow> activeUsers sv
                      | Some au \<Rightarrow>
                          (activeUsers sv)(u_id (sock_user sock) \<mapsto> au\<lparr>au_lastSeen := now\<rparr>)),
                   userRooms := (userRooms sv)(u_id (sock_user sock) := None),
                   sockets := filter (\<lambda>s. sock_id s \<noteq> sock_id sock) (sockets sv),
                   rooms := (rooms sv)(sock_id sock := {})\<rparr>))"

text \<open>The timer set on disconnect: after 30 seconds the user leaves \<^verbatim>\<open>activeUsers\<close>.\<close>

definition grace_expired :: "int \<Rightarrow> server \<Rightarrow> server" where
  "grace_expired uid sv = sv\<lparr>activeUsers := (activeUsers sv)(uid := None)\<rparr>"

section \<open>Offline manager (public/js/offline.js)\<close>

text \<open>
  A record of the IndexedDB object store \<^verbatim>\<open>syncQueue\<close> (\<^verbatim>\<open>keyPath: 'id'\<close>,
  \<^verbatim>\<open>autoIncrement: true\<close>): the action \<^verbatim>\<open>{ type, data }\<close> that the application queued,
  with the key the store gave it and the fields that \<^verbatim>\<open>queueAction\<close> and
  \<^verbatim>\<open>processSyncQueue\<close> write.
\<close>

record 'd action =
  a_id :: nat
  a_type :: string
  a_data :: 'd
  a_queuedAt :: "nat option"
  a_attempts :: "nat option"
  a_lastAttempt :: "nat option"

text \<open>
  The object store is the list of its records in ascending key order, which is what
  \<^verbatim>\<open>getAll\<close> returns. Requests are made on a transaction. An IndexedDB transaction is
  active while the callback of one of its requests runs, the promise jobs queued there
  included; as soon as the handler waits for something that is not a request of the
  transaction (here: a \<^verbatim>\<open>fetch\<close>), the transaction has nothing pending and finishes,
  and what it wrote so far is committed. From then on \<^verbatim>\<open>put\<close> and \<^verbatim>\<open>delete\<close> on its
  store throw TransactionInactiveError (\<open>None\<close>) and change nothing.
\<close>

record 'd txn =
  tx_active :: bool
  tx_store :: "'d action list"

text \<open>
  \<^verbatim>\<open>store.put(a)\<close> replaces the record under the key of \<open>a\<close> or inserts \<open>a\<close>;
  \<^verbatim>\<open>store.delete(k)\<close> removes the record under \<open>k\<close>.
\<close>

definition store_put :: "'d action \<Rightarrow> 'd txn \<Rightarrow> 'd txn option" where
  "store_put a tx =
     (if \<not> tx_active tx then None
      else if a_id a \<in> set (map a_id (tx_store tx)) then
        Some (tx\<lparr>tx_store := map (\<lambda>b. if a_id b = a_id a then a else b) (tx_store tx)\<rparr>)
      else Some (tx\<lparr>tx_store := insort_key a_id a (tx_store tx)\<rparr>))"

definition store_delete :: "nat \<Rightarrow> 'd txn \<Rightarrow> 'd txn option" where
  "store_delete k tx =
     (if \<not> tx_active tx then None
      else Some (tx\<lparr>tx_store := filter (\<lambda>b. a_id b \<noteq> k) (tx_store tx)\<rparr>))"

text \<open>
  The manager: \<^verbatim>\<open>this.db\<close> with its \<^verbatim>\<open>syncQueue\<close> store (\<open>None\<close> until the database
  is open) and the store's key generator, the in-memory \<^verbatim>\<open>this.syncQueue\<close>,
  \<^verbatim>\<open>this.isOnline\<close>, and whether \<^verbatim>\<open>window.app.socket\<close> exists.
\<close>

record 'd client =
  idb :: "'d action list option"
  keygen :: nat
  syncQueue :: "(string \<times> 'd) list"
  isOnline :: bool
  has_socket :: bool

text \<open>
  \<^verbatim>\<open>queueAction\<close>. Without a database the action goes to the in-memory queue and
  nothing else happens. Otherwise it is stamped, given zero attempts and added to the
  store under the next key. The boolean says whether a scan was scheduled
  (\<^verbatim>\<open>setTimeout(() => this.processSyncQueue(), 100)\<close> when online).
\<close>

definition queueAction :: "nat \<Rightarrow> string \<times> 'd \<Rightarrow> 'd client \<Rightarrow> 'd client \<times> bool" where
  "queueAction now act c =
     (case idb c of
        None \<Rightarrow> (c\<lparr>syncQueue := syncQueue c @ [act]\<rparr>, False)
      | Some store \<Rightarrow>
          (c\<lparr>idb := Some (store @
                  [\<lparr>a_id = keygen c, a_type = fst act, a_data = snd act,
                    a_queuedAt = Some now, a_attempts = Some 0, a_lastAttempt = None\<rparr>]),
             keygen := Suc (keygen c)\<rparr>,
           isOnline c))"

text \<open>
  What a sync function sends: a socket event or an HTTP POST, each with its payload.
  The network and the server behind it are a parameter of the manager: a function from
  its state and a request to the outcome and the next state. For a POST the outcome says
  whether \<^verbatim>\<open>fetch\<close> resolved with \<^verbatim>\<open>response.ok\<close>; \<^verbatim>\<open>socket.emit\<close> returns nothing,
  and its outcome is not looked at.
\<close>

datatype 'd request = SocketEmit string 'd | HttpPost string 'd

datatype 'd log = FailedToProcess | ActionFailed "'d action" | UnknownType string

definition syncMessage ::
  "('t \<Rightarrow> 'd request \<Rightarrow> bool \<times> 't) \<Rightarrow> bool \<Rightarrow> 'd \<Rightarrow> 't \<Rightarrow> bool \<times> 't" where
  "syncMessage net sock_present d t =
     (if sock_present then (True, snd (net t (SocketEmit ''send-message'' d)))
      else net t (HttpPost ''/api/messages'' d))"

text \<open>
  \<^verbatim>\<open>processAction\<close>: whether the awaited promise resolved, what was written to the
  console, and the network afterwards. An unknown type is warned about and resolves.
\<close>

definition processAction ::
  "('t \<Rightarrow> 'd request \<Rightarrow> bool \<times> 't) \<Rightarrow> bool \<Rightarrow> 'd action \<Rightarrow> 't \<Rightarrow> (bool \<times> 'd log list) \<times> 't" where
  "processAction net sock_present a t =
     (if a_type a = ''message'' then
        (case syncMessage net sock_present (a_data a) t of (ok, t') \<Rightarrow> ((ok, []), t'))
      else if a_type a = ''createGroup'' then
        (case net t (HttpPost ''/api/groups'' (a_data a)) of (ok, t') \<Rightarrow> ((ok, []), t'))
      else if a_type a = ''uploadFile'' then
        (case net t (HttpPost ''/api/files/upload'' (a_data a)) of (ok, t') \<Rightarrow> ((ok, []), t'))
      else ((True, [UnknownType (a_type a)]), t))"

text \<open>
  Whether \<^verbatim>\<open>processAction\<close> waits for a \<^verbatim>\<open>fetch\<close>: \<^verbatim>\<open>syncCreateGroup\<close> and
  \<^verbatim>\<open>syncFileUpload\<close> always do, \<^verbatim>\<open>syncMessage\<close> does when there is no socket; the
  emit on a socket and the warning about an unknown type wait for nothing.
\<close>

definition awaits_fetch :: "bool \<Rightarrow> 'd action \<Rightarrow> bool" where
  "awaits_fetch sock_present a =
     (if a_type a = ''message'' then \<not> sock_present
      else if a_type a = ''createGroup'' then True
      else if a_type a = ''uploadFile'' then True
      else False)"

text \<open>\<^verbatim>\<open>action.attempts || 0\<close>, and the action after a failed attempt.\<close>

definition attempts_of :: "'d action \<Rightarrow> nat" where
  "attempts_of a = (case a_attempts a of None \<Rightarrow> 0 | Some n \<Rightarrow> n)"

definition failed_attempt :: "nat \<Rightarrow> 'd action \<Rightarrow> 'd action" where
  "failed_attempt now a = a\<lparr>a_attempts := Some (attempts_of a + 1), a_lastAttempt := Some now\<rparr>"

text \<open>
  The loop of \<^verbatim>\<open>processSyncQueue\<close> over the snapshot that \<^verbatim>\<open>getAll\<close> returned. The
  state is the transaction, the network and the console output so far. After
  \<^verbatim>\<open>await this.processAction(action)\<close> the transaction is still active only if no
  \<^verbatim>\<open>fetch\<close> was waited for. In the \<^verbatim>\<open>try\<close> block the record is deleted by its id when
  the action resolved. The \<^verbatim>\<open>catch\<close> block is entered when the action rejected or the
  delete threw: it writes to the console, counts and stamps the attempt, and below three
  attempts puts the record back, otherwise deletes it and then reports it on the
  console. An exception thrown inside the \<^verbatim>\<open>catch\<close> block leaves the handler: the
  loop ends there and the remaining records of the snapshot are not looked at.
\<close>

fun process_queue ::
  "('t \<Rightarrow> 'd request \<Rightarrow> bool \<times> 't) \<Rightarrow> bool \<Rightarrow> nat \<Rightarrow> 'd action list \<Rightarrow>
     'd txn \<times> 't \<times> 'd log list \<Rightarrow> 'd txn \<times> 't \<times> 'd log list" where
  "process_queue net sp now [] st = st"
| "process_queue net sp now (a # rest) (tx, t, out) =
     (case processAction net sp a t of
        ((ok, warn), t') \<Rightarrow>
          (case (if ok
                 then store_delete (a_id a) (tx\<lparr>tx_active := tx_active tx \<and> \<not> awaits_fetch sp a\<rparr>)
                 else None) of
             Some tx' \<Rightarrow> process_queue net sp now rest (tx', t', out @ warn)
           | None \<Rightarrow>
               if attempts_of (failed_attempt now a) < 3 then
                 (case store_put (failed_attempt now a)
                         (tx\<lparr>tx_active := tx_active tx \<and> \<not> awaits_fetch sp a\<rparr>) of
                    Some tx' \<Rightarrow>
                      process_queue net sp now rest (tx', t', out @ warn @ [FailedToProcess])
                  | None \<Rightarrow>
                      (tx\<lparr>tx_active := tx_active tx \<and> \<not> awaits_fetch sp a\<rparr>, t',
                       out @ warn @ [FailedToProcess]))
               else
                 (case store_delete (a_id a)
                         (tx\<lparr>tx_active := tx_active tx \<and> \<not> awaits_fetch sp a\<rparr>) of
                    Some tx' \<Rightarrow>
                      process_queue net sp now rest
                        (tx', t',
                         out @ warn @ [FailedToProcess, ActionFailed (failed_attempt now a)])
                  | None \<Rightarrow>
                      (tx\<lparr>tx_active := tx_active tx \<and> \<not> awaits_fetch sp a\<rparr>, t',
                       out @ warn @ [FailedToProcess]))))"

text \<open>
  \<^verbatim>\<open>processSyncQueue\<close>: nothing happens without a database or while offline; otherwise
  a transaction is opened on the store, the whole store is read and the loop runs in
  the callback of that read. The result is the manager, the network and the console
  output of the scan. The in-memory \<^verbatim>\<open>this.syncQueue\<close> is not read.
\<close>

definition processSyncQueue ::
  "('t \<Rightarrow> 'd request \<Rightarrow> bool \<times> 't) \<Rightarrow> nat \<Rightarrow> 'd client \<Rightarrow> 't \<Rightarrow> ('d client \<times> 't) \<times> 'd log list" where
  "processSyncQueue net now c t =
     (case idb c of
        None \<Rightarrow> ((c, t), [])
      | Some store \<Rightarrow>
          if \<not> isOnline c then ((c, t), [])
          else
            (case process_queue net (has_socket c) now store
                    (\<lparr>tx_active = True, tx_store = store\<rparr>, t, []) of
               (tx, t', out) \<Rightarrow> ((c\<lparr>idb := Some (tx_store tx)\<rparr>, t'), out)))"

subsection \<open>The chat server behind the offline manager\<close>

text \<open>\<^verbatim>\<open>response.ok\<close>: the status is in the range 200 to 299.\<close>

definition response_ok :: "'a response \<Rightarrow> bool" where
  "response_ok r =
     (case r of Reply code _ \<Rightarrow> 200 \<le> code \<and> code < 300
      | Refuse code \<Rightarrow> 200 \<le> code \<and> code < 300)"

text \<open>
  The network of a client whose token and socket belong to one user, with the modelled
  server behind it: a \<^verbatim>\<open>send-message\<close> emit runs the socket handler (its deliveries go
  to the sockets), a POST to \<^verbatim>\<open>/api/messages\<close> runs the create route and is ok on a
  2xx answer. The routes behind the other two endpoints are not modelled; their
  outcome is the parameter \<open>others\<close>.
\<close>

definition chat_server ::
  "nat \<Rightarrow> socket \<Rightarrow> bool list \<Rightarrow> bool \<Rightarrow> server \<Rightarrow> message_data request \<Rightarrow> bool \<times> server" where
  "chat_server now sock fs others sv rq =
     (case rq of
        SocketEmit ev d \<Rightarrow>
          (True, if ev = ''send-message'' then snd (handle now sock (SendMessage (Some d)) sv)
                 else sv)
      | HttpPost url d \<Rightarrow>
          if url = ''/api/messages'' then
            (case create_message now (sock_user sock) d (sv_db sv) fs of
               (resp, db') \<Rightarrow> (response_ok resp, sv\<lparr>sv_db := db'\<rparr>))
          else (others, sv))"

section \<open>Example stores and requests\<close>

text \<open>
  Group 7 has the members Ana (1), Ben (2) and Cyd (3); Dee (4) is an authenticated user
  without a membership row; Eve (5) holds the global role admin and has no membership
  row either. No message has been sent yet.
\<close>

definition demo_db :: database where
  "demo_db =
     \<lparr>users = [\<lparr>u_id = 1, u_name = ''Ana'', u_role = ''field_staff''\<rparr>,
               \<lparr>u_id = 2, u_name = ''Ben'', u_role = ''volunteer''\<rparr>,
               \<lparr>u_id = 3, u_name = ''Cyd'', u_role = ''volunteer''\<rparr>,
               \<lparr>u_id = 4, u_name = ''Dee'', u_role = ''volunteer''\<rparr>,
               \<lparr>u_id = 5, u_name = ''Eve'', u_role = ''admin''\<rparr>],
      groups = [\<lparr>g_id = 7, g_created_by = Some 9\<rparr>],
      group_members = [\<lparr>gm_group_id = 7, gm_user_id = 1, gm_role = ''member''\<rparr>,
                       \<lparr>gm_group_id = 7, gm_user_id = 2, gm_role = ''member''\<rparr>,
                       \<lparr>gm_group_id = 7, gm_user_id = 3, gm_role = ''member''\<rparr>],
      messages = [], message_seq = 0, message_tags = [], message_status = []\<rparr>"

definition demo_ana :: user_row where
  "demo_ana = \<lparr>u_id = 1, u_name = ''Ana'', u_role = ''field_staff''\<rparr>"

definition demo_ben :: user_row where
  "demo_ben = \<lparr>u_id = 2, u_name = ''Ben'', u_role = ''volunteer''\<rparr>"

definition demo_dee :: user_row where
  "demo_dee = \<lparr>u_id = 4, u_name = ''Dee'', u_role = ''volunteer''\<rparr>"

definition demo_hello :: message_data where
  "demo_hello = \<lparr>md_groupId = 7, md_content = ''hello'', md_type = None, md_replyTo = None,
                  md_tags = None\<rparr>"

text \<open>The row that the create route stores for \<open>demo_hello\<close> sent by Ana at time 100.\<close>

definition demo_hello_row :: message_row where
  "demo_hello_row =
     \<lparr>m_id = 1, m_sender_id = 1, m_group_id = 7, m_content = ''hello'', m_type = ''text'',
      m_reply_to = None, m_edited_at = None, m_created_at = 100\<rparr>"

text \<open>The example store after Ana's message has been created at time 100.\<close>

definition demo_db_sent :: database where
  "demo_db_sent =
     demo_db\<lparr>messages := [demo_hello_row], message_seq := 1,
        message_status :=
          [\<lparr>ms_message_id = 1, ms_user_id = 1, ms_read_at = Some 100, ms_delivered_at = Some 100\<rparr>,
           \<lparr>ms_message_id = 1, ms_user_id = 2, ms_read_at = None, ms_delivered_at = Some 100\<rparr>,
           \<lparr>ms_message_id = 1, ms_user_id = 3, ms_read_at = None, ms_delivered_at = Some 100\<rparr>]\<rparr>"

text \<open>The row of the tag urgent that Ben adds to message 1.\<close>

definition demo_urgent :: tag_row where
  "demo_urgent =
     \<lparr>mt_message_id = 1, mt_tag_type = ''urgent'', mt_tag_value = None, mt_created_by = 2\<rparr>"



text \<open>
  The sockets of Ana, Ben and Dee, and a server on which all three are connected and
  Ana and Ben have joined the room of group 7.
\<close>

definition ana_sock :: socket where
  "ana_sock = \<lparr>sock_id = 11, sock_user = demo_ana\<rparr>"

definition ben_sock :: socket where
  "ben_sock = \<lparr>sock_id = 12, sock_user = demo_ben\<rparr>"

definition dee_sock :: socket where
  "dee_sock = \<lparr>sock_id = 14, sock_user = demo_dee\<rparr>"

definition demo_server :: server where
  "demo_server =
     \<lparr>sv_db = demo_db_sent,
      activeUsers = [1 \<mapsto> \<lparr>au_socketId = 11, au_user = demo_ana, au_lastSeen = 90\<rparr>,
                     2 \<mapsto> \<lparr>au_socketId = 12, au_user = demo_ben, au_lastSeen = 91\<rparr>,
                     4 \<mapsto> \<lparr>au_socketId = 14, au_user = demo_dee, au_lastSeen = 92\<rparr>],
      userRooms = [1 \<mapsto> {7}, 2 \<mapsto> {7}],
      sockets = [ana_sock, ben_sock, dee_sock],
      rooms = (\<lambda>_. {})(11 := {''group_7''}, 12 := {''group_7''})\<rparr>"

text \<open>The message object that the socket handler builds for \<open>demo_hello\<close> at time 210.\<close>

definition demo_chat :: chat_message where
  "demo_chat =
     \<lparr>cm_id = 210, cm_senderId = 1, cm_senderName = ''Ana'', cm_groupId = 7,
      cm_content = ''hello'', cm_type = ''text'', cm_tags = [], cm_timestamp = 210\<rparr>"

text \<open>
  An offline manager that is online again, without a live socket, whose store holds two
  message actions: the first carries two failed attempts, the second none. On
  \<open>dead_net\<close> every request fails. \<open>closed_client\<close> is a manager whose database has
  not been opened.
\<close>

definition demo_first :: "message_data action" where
  "demo_first =
     \<lparr>a_id = 1, a_type = ''message'', a_data = demo_hello, a_queuedAt = Some 50,
      a_attempts = Some 2, a_lastAttempt = Some 60\<rparr>"

definition demo_second :: "message_data action" where
  "demo_second =
     \<lparr>a_id = 2, a_type = ''message'', a_data = demo_hello, a_queuedAt = Some 70,
      a_attempts = Some 0, a_lastAttempt = None\<rparr>"

definition demo_client :: "message_data client" where
  "demo_client =
     \<lparr>idb = Some [demo_first, demo_second], keygen = 3, syncQueue = [], isOnline = True,
      has_socket = False\<rparr>"

definition dead_net :: "unit \<Rightarrow> message_data request \<Rightarrow> bool \<times> unit" where
  "dead_net t rq = (False, t)"

definition closed_client :: "message_data client" where
  "closed_client =
     \<lparr>idb = None, keygen = 1, syncQueue = [], isOnline = True, has_socket = False\<rparr>"

text \<open>On \<open>live_net\<close> every request succeeds.\<close>

definition live_net :: "unit \<Rightarrow> message_data request \<Rightarrow> bool \<times> unit" where
  "live_net t rq = (True, t)"

section \<open>Properties of group access\<close>

lemma membership_rows_none:
  "\<not> has_membership_row db userId groupId \<Longrightarrow> membership_rows db userId groupId = []"
  by (auto simp: has_membership_row_def membership_rows_def list_ex_iff)

lemma decideAccess_closed_form:
  "decideAccess (Inr (Some m)) userId action =
     (user_role m = ''admin'' \<or> created_by m = Some userId \<or>
      action = ''read'' \<or> action = ''write'' \<or>
      ((action = ''delete'' \<or> action = ''manage'') \<and>
       (role m = ''admin'' \<or> role m = ''moderator'')))"
  by (simp add: decideAccess_def)

text \<open>
  Claim C3 as the code has it. The query joins on \<^verbatim>\<open>group_members\<close>, so the guard
  \<^verbatim>\<open>if (!membership) return false\<close> comes first: without a membership row the answer is
  false for every action and every global role, the admin role included. With a row
  selected, a global admin resolves true, then the group creator resolves true, then
  read and write are open to any member, delete and manage only to the group roles
  admin and moderator, and any other action is refused.
\<close>

theorem canAccessGroup_resolution:
  "(\<not> has_membership_row db userId groupId \<longrightarrow> \<not> canAccessGroup db userId groupId action) \<and>
   (getQuery (membership_rows db userId groupId) = Some m \<longrightarrow>
      canAccessGroup db userId groupId action =
        (user_role m = ''admin'' \<or> created_by m = Some userId \<or>
         action = ''read'' \<or> action = ''write'' \<or>
         ((action = ''delete'' \<or> action = ''manage'') \<and>
          (role m = ''admin'' \<or> role m = ''moderator''))))"
proof (intro conjI impI)
  assume "\<not> has_membership_row db userId groupId"
  then have "membership_rows db userId groupId = []"
    by (rule membership_rows_none)
  then show "\<not> canAccessGroup db userId groupId action"
    by (simp add: canAccessGroup_def getQuery_def decideAccess_def)
next
  assume "getQuery (membership_rows db userId groupId) = Some m"
  then show "canAccessGroup db userId groupId action =
        (user_role m = ''admin'' \<or> created_by m = Some userId \<or>
         action = ''read'' \<or> action = ''write'' \<or>
         ((action = ''delete'' \<or> action = ''manage'') \<and>
          (role m = ''admin'' \<or> role m = ''moderator'')))"
    by (simp only: canAccessGroup_def decideAccess_closed_form)
qed

text \<open>
  The resolution at concrete stores: user 5, a volunteer and plain member of group 7
  (created by user 2), may read but not delete; user 1, a global admin without a
  membership row for group 7, is refused.
\<close>

theorem canAccessGroup_resolution_witness:
  "(\<not> has_membership_row
        \<lparr>users = [\<lparr>u_id = 1, u_name = ''Ada'', u_role = ''admin''\<rparr>],
         groups = [\<lparr>g_id = 7, g_created_by = Some 2\<rparr>], group_members = [],
         messages = [], message_seq = 0, message_tags = [], message_status = []\<rparr> 1 7 \<and>
    \<not> canAccessGroup
        \<lparr>users = [\<lparr>u_id = 1, u_name = ''Ada'', u_role = ''admin''\<rparr>],
         groups = [\<lparr>g_id = 7, g_created_by = Some 2\<rparr>], group_members = [],
         messages = [], message_seq = 0, message_tags = [], message_status = []\<rparr> 1 7 ''write'') \<and>
   (getQuery (membership_rows
        \<lparr>users = [\<lparr>u_id = 5, u_name = ''Bo'', u_role = ''volunteer''\<rparr>],
         groups = [\<lparr>g_id = 7, g_created_by = Some 2\<rparr>],
         group_members = [\<lparr>gm_group_id = 7, gm_user_id = 5, gm_role = ''member''\<rparr>],
         messages = [], message_seq = 0, message_tags = [], message_status = []\<rparr> 5 7)
      = Some \<lparr>role = ''member'', created_by = Some 2, user_role = ''volunteer''\<rparr> \<and>
    canAccessGroup
        \<lparr>users = [\<lparr>u_id = 5, u_name = ''Bo'', u_role = ''volunteer''\<rparr>],
         groups = [\<lparr>g_id = 7, g_created_by = Some 2\<rparr>],
         group_members = [\<lparr>gm_group_id = 7, gm_user_id = 5, gm_role = ''member''\<rparr>],
         messages = [], message_seq = 0, message_tags = [], message_status = []\<rparr> 5 7 ''read'' \<and>
    \<not> canAccessGroup
        \<lparr>users = [\<lparr>u_id = 5, u_name = ''Bo'', u_role = ''volunteer''\<rparr>],
         groups = [\<lparr>g_id = 7, g_created_by = Some 2\<rparr>],
         group_members = [\<lparr>gm_group_id = 7, gm_user_id = 5, gm_role = ''member''\<rparr>],
         messages = [], message_seq = 0, message_tags = [], message_status = []\<rparr> 5 7 ''delete'')"
proof -
  let ?a = "\<lparr>users = [\<lparr>u_id = 1, u_name = ''Ada'', u_role = ''admin''\<rparr>],
         groups = [\<lparr>g_id = 7, g_created_by = Some 2\<rparr>], group_members = [],
         messages = [], message_seq = 0, message_tags = [], message_status = []\<rparr>"
  let ?b = "\<lparr>users = [\<lparr>u_id = 5, u_name = ''Bo'', u_role = ''volunteer''\<rparr>],
         groups = [\<lparr>g_id = 7, g_created_by = Some 2\<rparr>],
         group_members = [\<lparr>gm_group_id = 7, gm_user_id = 5, gm_role = ''member''\<rparr>],
         messages = [], message_seq = 0, message_tags = [], message_status = []\<rparr>"
  let ?m = "\<lparr>role = ''member'', created_by = Some 2, user_role = ''volunteer''\<rparr>"
  have na: "\<not> has_membership_row ?a 1 7"
    by (simp add: has_membership_row_def)
  have qb: "getQuery (membership_rows ?b 5 7) = Some ?m"
    by (simp add: membership_rows_def getQuery_def)
  from canAccessGroup_resolution [of ?a 1 7 "''write''" ?m] na
  have 1: "\<not> canAccessGroup ?a 1 7 ''write''" by blast
  from canAccessGroup_resolution [of ?b 5 7 "''read''" ?m] qb
  have 2: "canAccessGroup ?b 5 7 ''read''" by simp
  from canAccessGroup_resolution [of ?b 5 7 "''delete''" ?m] qb
  have 3: "\<not> canAccessGroup ?b 5 7 ''delete''" by simp
  from na qb 1 2 3 show ?thesis by blast
qed

text \<open>
  Claim C3 as stated fails: user 1 has the global role admin and no membership row for
  group 7, and \<^verbatim>\<open>canAccessGroup\<close> answers false.
\<close>

theorem canAccessGroup_admin_counterexample:
  "\<not> canAccessGroup
        \<lparr>users = [\<lparr>u_id = 1, u_name = ''Ada'', u_role = ''admin''\<rparr>],
         groups = [\<lparr>g_id = 7, g_created_by = Some 2\<rparr>], group_members = [],
         messages = [], message_seq = 0, message_tags = [], message_status = []\<rparr> 1 7 ''read''"
  by (simp add: canAccessGroup_def membership_rows_def getQuery_def decideAccess_def)

section \<open>Properties of the create-message route\<close>

lemma insert_tags_frame:
  "insert_tags mid uid ts db fs = (b, db', fs') \<Longrightarrow>
     messages db' = messages db \<and> message_status db' = message_status db \<and>
     group_members db' = group_members db \<and> users db' = users db \<and> groups db' = groups db"
proof (induction mid uid ts db fs rule: insert_tags.induct)
qed (auto simp: insert_tag_def split: prod.splits bool.splits if_splits)

lemma filter_distinct_one:
  "distinct (map f xs) \<Longrightarrow> x \<in> set xs \<Longrightarrow> length (filter (\<lambda>y. f y = f x) xs) = 1"
proof (induction xs)
  case Nil then show ?case by simp
next
  case (Cons a xs)
  show ?case
  proof (cases "f a = f x")
    case True
    with Cons.prems have "\<forall>y\<in>set xs. f y \<noteq> f x" by (auto simp: image_iff)
    then have "filter (\<lambda>y. f y = f x) xs = []" by (simp add: filter_empty_conv)
    with True show ?thesis by simp
  next
    case False
    with Cons show ?thesis by auto
  qed
qed

lemma decideAccess_fault [simp]: "\<not> decideAccess (Inl ()) uid a"
  by (simp add: decideAccess_def)

lemma decideAccess_member:
  "decideAccess (Inr (getQuery (membership_rows db uid gid))) uid a \<Longrightarrow>
     \<exists>gm \<in> set (group_members db). gm_user_id gm = uid \<and> gm_group_id gm = gid"
  by (cases "has_membership_row db uid gid")
     (auto simp: decideAccess_def getQuery_def membership_rows_none has_membership_row_def list_ex_iff)

lemma store_message_created:
  assumes "store_message now user rq db fs = (Reply 201 mid, db')"
  shows "distinct (map status_key (fanout_rows now mid (u_id user) (md_groupId rq) db)) \<and>
         message_status db' = message_status db @ fanout_rows now mid (u_id user) (md_groupId rq) db \<and>
         group_members db' = group_members db"
  using assms
  apply (simp add: store_message_def Let_def split: prod.splits bool.splits option.splits if_splits)
  apply (auto simp: insert_status_def fanout_rows_def insert_message_def dest!: insert_tags_frame split: if_splits)
  done

lemma create_message_created:
  assumes "create_message now user rq db fs = (Reply 201 mid, db')"
  shows "\<exists>fs'. store_message now user rq db fs' = (Reply 201 mid, db') \<and>
     (\<exists>gm \<in> set (group_members db). gm_user_id gm = u_id user \<and> gm_group_id gm = md_groupId rq)"
  using assms
  by (auto simp: create_message_def split: prod.splits bool.splits option.splits if_splits dest: decideAccess_member)


lemma store_message_effect:
  assumes "store_message now user rq db fs = (resp, db')"
  shows "(db' = db \<and> resp = Refuse 500 \<and> fst (next_fault fs)) \<or>
         (\<not> fst (next_fault fs) \<and> messages db' = messages db @ [new_message_row now user rq db] \<and>
          (message_status db' = message_status db \<and> resp = Refuse 500 \<or>
           message_status db' = message_status db @
              fanout_rows now (next_message_id db) (u_id user) (md_groupId rq) db))"
  using assms
  apply (simp add: store_message_def Let_def split: prod.splits bool.splits option.splits if_splits)
  apply (auto simp: insert_status_def fanout_rows_def insert_message_def new_message_row_def dest!: insert_tags_frame split: if_splits)
  done


text \<open>
  Claim C1 as the code has it. A create-message request that the route answers with 201
  appends to \<^verbatim>\<open>message_status\<close> exactly one row per membership row of the group, all for
  the new message; exactly one of them has read-at set, and a row has read-at set if and
  only if it is the sender's. The count is tied to the 201 answer, not to the request
  being valid.
\<close>

theorem create_message_fanout:
  assumes "create_message now user rq db fs = (Reply 201 mid, db')"
  shows "\<exists>rows. message_status db' = message_status db @ rows \<and>
     length rows = length (filter (\<lambda>gm. gm_group_id gm = md_groupId rq) (group_members db')) \<and>
     length (filter (\<lambda>r. ms_read_at r \<noteq> None) rows) = 1 \<and>
     (\<forall>r \<in> set rows. ms_message_id r = mid \<and> ((ms_read_at r \<noteq> None) = (ms_user_id r = u_id user)))"
proof -
  let ?ms = "filter (\<lambda>gm. gm_group_id gm = md_groupId rq) (group_members db)"
  let ?rows = "fanout_rows now mid (u_id user) (md_groupId rq) db"
  from create_message_created [OF assms] obtain fs' gm where
    st: "store_message now user rq db fs' = (Reply 201 mid, db')" and
    gm: "gm \<in> set (group_members db)" "gm_user_id gm = u_id user" "gm_group_id gm = md_groupId rq"
    by blast
  from store_message_created [OF st] have
    d: "distinct (map status_key ?rows)" and
    ms: "message_status db' = message_status db @ ?rows" and
    gmeq: "group_members db' = group_members db"
    by simp_all
  have len: "length ?rows = length ?ms"
    by (simp add: fanout_rows_def)
  have "map status_key ?rows = map (\<lambda>g. (mid, gm_user_id g)) ?ms"
    by (simp add: fanout_rows_def status_key_def)
  with d have "distinct (map (\<lambda>g. (mid, gm_user_id g)) ?ms)" by simp
  then have du: "distinct (map gm_user_id ?ms)"
    by (simp add: distinct_map inj_on_def)
  from gm have "gm \<in> set ?ms" by simp
  from filter_distinct_one [OF du this]
  have one: "length (filter (\<lambda>g. gm_user_id g = u_id user) ?ms) = 1"
    using gm(2) by simp
  have "length (filter (\<lambda>r. ms_read_at r \<noteq> None) (map (\<lambda>g. \<lparr>ms_message_id = mid, ms_user_id = gm_user_id g,
                 ms_read_at = (if gm_user_id g = u_id user then Some now else None),
                 ms_delivered_at = Some now\<rparr>) xs)) = length (filter (\<lambda>g. gm_user_id g = u_id user) xs)" for xs
    by (induction xs) simp_all
  then have "length (filter (\<lambda>r. ms_read_at r \<noteq> None) ?rows) =
             length (filter (\<lambda>g. gm_user_id g = u_id user) ?ms)"
    unfolding fanout_rows_def .
  with one have cnt: "length (filter (\<lambda>r. ms_read_at r \<noteq> None) ?rows) = 1"
    by (simp only:)
  have each: "\<forall>r \<in> set ?rows. ms_message_id r = mid \<and> ((ms_read_at r \<noteq> None) = (ms_user_id r = u_id user))"
    by (auto simp: fanout_rows_def)
  from ms len cnt each gmeq show ?thesis by auto
qed


lemmas create_message_eval =
  create_message_def store_message_def create_validation_def decideAccess_def getQuery_def
  membership_rows_def insert_message_def new_message_row_def next_message_id_def
  insert_status_def fanout_rows_def status_key_def message_with_sender_def trim_def is_space_def
  reply_target_def insert_tag_def truthy_def or_null_def

lemmas demo_defs = demo_db_def demo_ana_def demo_ben_def demo_dee_def demo_hello_def demo_hello_row_def

lemma demo_create_ok:
  "create_message 100 demo_ana demo_hello demo_db [] =
     (Reply 201 1,
      demo_db\<lparr>messages := [demo_hello_row], message_seq := 1,
        message_status :=
          [\<lparr>ms_message_id = 1, ms_user_id = 1, ms_read_at = Some 100, ms_delivered_at = Some 100\<rparr>,
           \<lparr>ms_message_id = 1, ms_user_id = 2, ms_read_at = None, ms_delivered_at = Some 100\<rparr>,
           \<lparr>ms_message_id = 1, ms_user_id = 3, ms_read_at = None, ms_delivered_at = Some 100\<rparr>]\<rparr>)"
  by (simp add: create_message_eval demo_defs)

text \<open>
  The fan-out on the example store: Ana sends to group 7, which has three membership
  rows; three status rows are inserted and only Ana's has read-at set.
\<close>

theorem create_message_fanout_witness:
  "create_message 100 demo_ana demo_hello demo_db [] =
     (Reply 201 1,
      demo_db\<lparr>messages := [demo_hello_row], message_seq := 1,
        message_status :=
          [\<lparr>ms_message_id = 1, ms_user_id = 1, ms_read_at = Some 100, ms_delivered_at = Some 100\<rparr>,
           \<lparr>ms_message_id = 1, ms_user_id = 2, ms_read_at = None, ms_delivered_at = Some 100\<rparr>,
           \<lparr>ms_message_id = 1, ms_user_id = 3, ms_read_at = None, ms_delivered_at = Some 100\<rparr>]\<rparr>) \<and>
   length (filter (\<lambda>gm. gm_group_id gm = 7) (group_members demo_db)) = 3 \<and>
   (\<exists>rows :: status_row list. length rows = 3 \<and>
      length (filter (\<lambda>r. ms_read_at r \<noteq> None) rows) = 1 \<and>
      (\<forall>r \<in> set rows. ms_message_id r = 1 \<and> ((ms_read_at r \<noteq> None) = (ms_user_id r = 1))))"
proof -
  have n: "length (filter (\<lambda>gm. gm_group_id gm = 7) (group_members demo_db)) = 3"
    by (simp add: demo_db_def)
  have "\<exists>rows :: status_row list. length rows = 3 \<and>
      length (filter (\<lambda>r. ms_read_at r \<noteq> None) rows) = 1 \<and>
      (\<forall>r \<in> set rows. ms_message_id r = 1 \<and> ((ms_read_at r \<noteq> None) = (ms_user_id r = 1)))"
    using create_message_fanout [OF demo_create_ok]
    apply (elim exE conjE)
    subgoal for rows
      apply (rule_tac x = rows in exI)
      apply (simp add: demo_defs)
      done
    done
  then show ?thesis using demo_create_ok n by blast
qed

text \<open>
  Claim C1 as stated fails. The body \<^verbatim>\<open>{ groupId: 7, content: 'hello', tags: [null] }\<close>
  passes the validators (\<^verbatim>\<open>tags\<close> is an array) and the access check (Ana is a member of
  group 7, which has three membership rows), and no storage call fails. The message row
  is inserted, then \<^verbatim>\<open>tag.type\<close> throws on the \<^verbatim>\<open>null\<close> element before the fan-out insert
  is reached: the route answers 500 and no status row is inserted, against three
  membership rows.
\<close>

theorem create_message_fanout_counterexample:
  "create_validation (demo_hello\<lparr>md_tags := Some [TagNull]\<rparr>) \<and>
   canAccessGroup demo_db (u_id demo_ana) (md_groupId (demo_hello\<lparr>md_tags := Some [TagNull]\<rparr>)) ''write'' \<and>
   create_message 100 demo_ana (demo_hello\<lparr>md_tags := Some [TagNull]\<rparr>) demo_db [] =
     (Refuse 500, demo_db\<lparr>messages := [demo_hello_row], message_seq := 1\<rparr>) \<and>
   message_status demo_db = [] \<and>
   message_status (demo_db\<lparr>messages := [demo_hello_row], message_seq := 1\<rparr>) = [] \<and>
   length (filter (\<lambda>gm. gm_group_id gm = 7) (group_members demo_db)) = 3"
  by (simp add: create_message_eval canAccessGroup_def demo_defs)




section \<open>Properties of tags\<close>

lemma js_split_nonempty [simp]: "js_split c s \<noteq> []"
  by (induction s) (auto split: list.splits)










lemma add_tags_effect:
  "add_tags user mid ts db fs = (resp, db') \<Longrightarrow>
     db' = db \<or> (\<exists>b fs'. add_valid_tags mid (u_id user) ts db fs' = (b, db') \<and>
                     (resp = Reply 200 (filter (\<lambda>tag. tag \<in> set validTags) ts) \<and> \<not> b \<or>
                      resp = Refuse 500 \<and> b))"
  by (auto simp: add_tags_def split: if_splits prod.splits bool.splits option.splits)





lemmas route_eval =
  add_tags_def getQuery_def message_access_def validTags_def insert_tag_def
  get_message_status_def status_rows_def read_key_def






text \<open>
  Claim C9 at its failing input. \<^verbatim>\<open>message_tags\<close> has no UNIQUE constraint on
  \<^verbatim>\<open>(message_id, tag_type)\<close>, so \<^verbatim>\<open>INSERT OR IGNORE\<close> never ignores: Ben adds the
  kind urgent to message 1 twice and the pair (message 1, urgent) is stored twice.
\<close>

theorem add_tags_duplicate_rows:
  "add_tags demo_ben 1 [''urgent''] (snd (add_tags demo_ben 1 [''urgent''] demo_db_sent [])) [] =
     (Reply 200 [''urgent''], demo_db_sent\<lparr>message_tags := [demo_urgent, demo_urgent]\<rparr>) \<and>
   length (filter (\<lambda>t. mt_message_id t = 1 \<and> mt_tag_type t = ''urgent'')
     (message_tags (snd (add_tags demo_ben 1 [''urgent'']
        (snd (add_tags demo_ben 1 [''urgent''] demo_db_sent [])) [])))) = 2"
  by (simp add: route_eval demo_defs demo_db_sent_def demo_urgent_def)

section \<open>Properties of the socket layer\<close>

lemmas sock_defs = ana_sock_def ben_sock_def dee_sock_def demo_server_def demo_chat_def

lemma room_name_7: "room_name 7 = ''group_7''"
  by (simp add: room_name_def digits.simps digit_char_def)

lemma join_group_db: "join_group sock g (sv\<lparr>sv_db := d\<rparr>) = (join_group sock g sv)\<lparr>sv_db := d\<rparr>"
  by (simp add: join_group_def)

lemma fold_join_db:
  "fold (join_group sock) gids (sv\<lparr>sv_db := d\<rparr>) = (fold (join_group sock) gids sv)\<lparr>sv_db := d\<rparr>"
  by (induction gids arbitrary: sv) (simp_all add: join_group_db)

lemma fold_join_frame:
  "sv_db (fold (join_group sock) gids sv) = sv_db sv \<and>
   sockets (fold (join_group sock) gids sv) = sockets sv \<and>
   activeUsers (fold (join_group sock) gids sv) = activeUsers sv"
  by (induction gids arbitrary: sv) (simp_all add: join_group_def)

lemma fold_join_rooms:
  "rooms (fold (join_group sock) gids sv) (sock_id sock) =
     rooms sv (sock_id sock) \<union> room_name ` set gids"
  by (induction gids arbitrary: sv) (auto simp: join_group_def)

lemma fold_join_userRooms:
  "gids \<noteq> [] \<Longrightarrow>
   userRooms (fold (join_group sock) gids sv) (u_id (sock_user sock)) =
     Some ((case userRooms sv (u_id (sock_user sock)) of None \<Rightarrow> {} | Some s \<Rightarrow> s) \<union> set gids)"
proof (induction gids arbitrary: sv)
  case Nil
  then show ?case by simp
next
  case (Cons g gs)
  show ?case
  proof (cases "gs = []")
    case True
    then show ?thesis by (simp add: join_group_def)
  next
    case False
    from Cons.IH [OF False, of "join_group sock g sv"]
    show ?thesis by (simp add: join_group_def)
  qed
qed

lemma handle_db: "sv_db (snd (handle now sock ev sv)) = sv_db sv"
  by (cases ev) (auto simp: handle_def fold_join_frame split: option.splits)

lemma broadcast_db: "broadcast (sv\<lparr>sv_db := d\<rparr>) sock room ev = broadcast sv sock room ev"
  by (simp add: broadcast_def)

lemma handle_ignores_db:
  "fst (handle now sock ev (sv\<lparr>sv_db := d\<rparr>)) = fst (handle now sock ev sv)"
  by (cases ev) (auto simp: handle_def broadcast_db split: option.splits)

text \<open>
  Claim C2 as the code has it. The \<^verbatim>\<open>join-groups\<close> handler consults no membership
  authority: its effect is the same for every content of the store. Every group id of
  the request is recorded: the socket's rooms afterwards are its rooms before plus the
  room of every requested group, the user's entry of \<^verbatim>\<open>userRooms\<close> is its old set
  plus the requested ids, and every later broadcast of another socket to such a room is
  delivered to the joining socket.
\<close>

theorem join_groups_unchecked:
  "handle now sock (JoinGroups gids) (sv\<lparr>sv_db := d\<rparr>) =
     ([], (snd (handle now sock (JoinGroups gids) sv))\<lparr>sv_db := d\<rparr>) \<and>
   rooms (snd (handle now sock (JoinGroups gids) sv)) (sock_id sock) =
     rooms sv (sock_id sock) \<union> room_name ` set gids \<and>
   (gids \<noteq> [] \<longrightarrow>
      userRooms (snd (handle now sock (JoinGroups gids) sv)) (u_id (sock_user sock)) =
        Some ((case userRooms sv (u_id (sock_user sock)) of None \<Rightarrow> {} | Some s \<Rightarrow> s) \<union> set gids)) \<and>
   (g \<in> set gids \<and> sock \<in> set (sockets sv) \<and> sock_id sender \<noteq> sock_id sock \<longrightarrow>
      (sock_id sock, ev) \<in>
        set (broadcast (snd (handle now sock (JoinGroups gids) sv)) sender (room_name g) ev))"
proof (intro conjI impI)
  show "handle now sock (JoinGroups gids) (sv\<lparr>sv_db := d\<rparr>) =
     ([], (snd (handle now sock (JoinGroups gids) sv))\<lparr>sv_db := d\<rparr>)"
    by (simp add: handle_def fold_join_db)
  show "rooms (snd (handle now sock (JoinGroups gids) sv)) (sock_id sock) =
     rooms sv (sock_id sock) \<union> room_name ` set gids"
    by (simp add: handle_def fold_join_rooms)
  show "userRooms (snd (handle now sock (JoinGroups gids) sv)) (u_id (sock_user sock)) =
        Some ((case userRooms sv (u_id (sock_user sock)) of None \<Rightarrow> {} | Some s \<Rightarrow> s) \<union> set gids)"
    if "gids \<noteq> []"
    using that by (simp add: handle_def fold_join_userRooms)
  show "(sock_id sock, ev) \<in>
        set (broadcast (snd (handle now sock (JoinGroups gids) sv)) sender (room_name g) ev)"
    if "g \<in> set gids \<and> sock \<in> set (sockets sv) \<and> sock_id sender \<noteq> sock_id sock"
  proof -
    from that have "room_name g \<in> rooms (fold (join_group sock) gids sv) (sock_id sock)"
      by (simp add: fold_join_rooms)
    moreover from that have "sock \<in> set (sockets (fold (join_group sock) gids sv))"
      by (simp add: fold_join_frame)
    ultimately show ?thesis using that
      by (force simp: handle_def broadcast_def)
  qed
qed


text \<open>
  Dee has no membership row for group 7 and is no admin; the join of group 7 is recorded
  and a broadcast of Ana to the room reaches Dee's socket.
\<close>

theorem join_groups_unchecked_witness:
  "7 \<in> set [7::int] \<and> dee_sock \<in> set (sockets demo_server) \<and>
   sock_id ana_sock \<noteq> sock_id dee_sock \<and>
   rooms (snd (handle 200 dee_sock (JoinGroups [7]) demo_server)) 14 = {''group_7''} \<and>
   userRooms (snd (handle 200 dee_sock (JoinGroups [7]) demo_server)) 4 = Some {7} \<and>
   (14, NewMessage demo_chat) \<in>
     set (broadcast (snd (handle 200 dee_sock (JoinGroups [7]) demo_server)) ana_sock
            ''group_7'' (NewMessage demo_chat))"
proof -
  have h: "7 \<in> set [7::int]" "dee_sock \<in> set (sockets demo_server)"
    "sock_id ana_sock \<noteq> sock_id dee_sock" "[7::int] \<noteq> []"
    by (simp_all add: sock_defs)
  from join_groups_unchecked [where now = 200 and sock = dee_sock and gids = "[7]"
      and sv = demo_server and g = 7 and sender = ana_sock and ev = "NewMessage demo_chat"
      and d = demo_db] h
  have "rooms (snd (handle 200 dee_sock (JoinGroups [7]) demo_server)) (sock_id dee_sock) =
          rooms demo_server (sock_id dee_sock) \<union> room_name ` set [7]"
    and "userRooms (snd (handle 200 dee_sock (JoinGroups [7]) demo_server)) (u_id (sock_user dee_sock)) =
          Some ((case userRooms demo_server (u_id (sock_user dee_sock)) of None \<Rightarrow> {} | Some s \<Rightarrow> s)
                 \<union> set [7])"
    and "(sock_id dee_sock, NewMessage demo_chat) \<in>
          set (broadcast (snd (handle 200 dee_sock (JoinGroups [7]) demo_server)) ana_sock
                 (room_name 7) (NewMessage demo_chat))"
    by blast+
  then show ?thesis using h
    by (simp add: room_name_7 sock_defs demo_defs)
qed

text \<open>
  Claim C2 as stated fails: Dee, an authenticated volunteer with no membership row for
  group 7, names group 7 in \<^verbatim>\<open>join-groups\<close>; the join is recorded, and the message
  that Ana then sends to group 7 is delivered to Dee's socket 14.
\<close>

theorem join_groups_counterexample:
  "\<not> has_membership_row (sv_db demo_server) 4 7 \<and>
   u_role demo_dee = ''volunteer'' \<and>
   \<not> canAccessGroup (sv_db demo_server) 4 7 ''read'' \<and>
   userRooms (snd (handle 200 dee_sock (JoinGroups [7]) demo_server)) 4 = Some {7} \<and>
   fst (handle 210 ana_sock (SendMessage (Some demo_hello))
          (snd (handle 200 dee_sock (JoinGroups [7]) demo_server))) =
     [(12, NewMessage demo_chat), (14, NewMessage demo_chat), (11, MessageSent demo_chat)]"
  by (simp add: handle_def join_group_def broadcast_def outgoing_message_def room_name_7
        has_membership_row_def canAccessGroup_def decideAccess_def getQuery_def
        membership_rows_def sock_defs demo_defs demo_db_sent_def)

lemma create_message_row:
  assumes "create_message t user rq db fs = (Reply 201 mid, db')"
  shows "mid = next_message_id db \<and> messages db' = messages db @ [new_message_row t user rq db]"
proof -
  from create_message_created [OF assms] obtain fs' where
    st: "store_message t user rq db fs' = (Reply 201 mid, db')" by blast
  from store_message_effect [OF st]
  have "messages db' = messages db @ [new_message_row t user rq db]" by auto
  moreover from st have "mid = next_message_id db"
    by (auto simp: store_message_def Let_def split: prod.splits bool.splits option.splits)
  ultimately show ?thesis by simp
qed

lemma add_valid_tags_messages:
  "add_valid_tags mid uid ts db fs = (b, db') \<Longrightarrow> messages db' = messages db"
proof (induction mid uid ts db fs arbitrary: db' rule: add_valid_tags.induct)
  case (1 mid uid db fs)
  then show ?case by simp
next
  case (2 mid uid tag ts db fs)
  show ?case
  proof (cases "tag \<in> set validTags")
    case True
    obtain f fs' where nf: "next_fault fs = (f, fs')" by (cases "next_fault fs")
    show ?thesis
    proof (cases f)
      case True
      with nf \<open>tag \<in> set validTags\<close> "2.prems" show ?thesis by simp
    next
      case False
      with nf \<open>tag \<in> set validTags\<close> "2.prems"
      have run: "add_valid_tags mid uid ts (insert_tag mid tag None uid db) fs' = (b, db')"
        by simp
      from False have "f = False" by simp
      from "2.IH"(1) [OF \<open>tag \<in> set validTags\<close> nf [symmetric] this run]
      show ?thesis by (simp add: insert_tag_def)
    qed
  next
    case False
    with "2.prems" have "add_valid_tags mid uid ts db fs = (b, db')" by simp
    from "2.IH"(2) [OF False this] show ?thesis .
  qed
qed

lemma add_tags_messages: "messages (snd (add_tags user mid ts db fs)) = messages db"
proof -
  obtain resp db' where run: "add_tags user mid ts db fs = (resp, db')"
    by (cases "add_tags user mid ts db fs")
  from add_tags_effect [OF run] have "messages db' = messages db"
    by (auto dest: add_valid_tags_messages)
  with run show ?thesis by simp
qed

lemma list_messages_messages: "messages (snd (list_messages t user gid q db fs)) = messages db"
  by (auto simp: list_messages_def batch_read_def split: if_splits prod.splits bool.splits)

text \<open>
  Claim C10. No socket handler writes to the store, \<^verbatim>\<open>send-message\<close> included, and
  what a handler emits does not depend on the store. The \<^verbatim>\<open>send-message\<close> handler
  broadcasts \<^verbatim>\<open>new-message\<close> to the other sockets of the room and echoes
  \<^verbatim>\<open>message-sent\<close> to the sender, both with the same message object, whose id is the
  clock reading. A message row is written by the create route: on a 201 answer it has
  appended exactly one row, under the next id of the store. The add-tags route and the
  list route leave the message rows as they are.
\<close>

theorem send_message_not_persisted:
  "sv_db (snd (handle now sock ev sv)) = sv_db sv \<and>
   fst (handle now sock ev (sv\<lparr>sv_db := d\<rparr>)) = fst (handle now sock ev sv) \<and>
   fst (handle now sock (SendMessage (Some msg)) sv) =
     broadcast sv sock (room_name (md_groupId msg)) (NewMessage (outgoing_message now sock msg)) @
       [(sock_id sock, MessageSent (outgoing_message now sock msg))] \<and>
   cm_id (outgoing_message now sock msg) = now \<and>
   (create_message t user rq db fs = (Reply 201 mid, db') \<longrightarrow>
      mid = next_message_id db \<and> messages db' = messages db @ [new_message_row t user rq db]) \<and>
   messages (snd (add_tags user mid2 ts db fs2)) = messages db \<and>
   messages (snd (list_messages t user gid q db fs3)) = messages db"
proof (intro conjI impI)
  show "messages (snd (add_tags user mid2 ts db fs2)) = messages db"
    by (rule add_tags_messages)
  show "messages (snd (list_messages t user gid q db fs3)) = messages db"
    by (rule list_messages_messages)
  show "sv_db (snd (handle now sock ev sv)) = sv_db sv" by (rule handle_db)
  show "fst (handle now sock ev (sv\<lparr>sv_db := d\<rparr>)) = fst (handle now sock ev sv)"
    by (rule handle_ignores_db)
  show "fst (handle now sock (SendMessage (Some msg)) sv) =
     broadcast sv sock (room_name (md_groupId msg)) (NewMessage (outgoing_message now sock msg)) @
       [(sock_id sock, MessageSent (outgoing_message now sock msg))]"
    by (simp add: handle_def)
  show "cm_id (outgoing_message now sock msg) = now" by (simp add: outgoing_message_def)
next
  assume a: "create_message t user rq db fs = (Reply 201 mid, db')"
  from create_message_row [OF a] show "mid = next_message_id db" by simp
  from create_message_row [OF a]
  show "messages db' = messages db @ [new_message_row t user rq db]" by simp
qed

text \<open>
  Ana's \<^verbatim>\<open>send-message\<close> at time 210 on the example server: Ben gets \<^verbatim>\<open>new-message\<close>,
  Ana gets \<^verbatim>\<open>message-sent\<close>, the id is 210 and the store still holds the one message
  with id 1 that the create route stored.
\<close>

theorem send_message_not_persisted_witness:
  "create_message 100 demo_ana demo_hello demo_db [] = (Reply 201 1, demo_db_sent) \<and>
   messages demo_db_sent = messages demo_db @ [demo_hello_row] \<and>
   fst (handle 210 ana_sock (SendMessage (Some demo_hello)) demo_server) =
     [(12, NewMessage demo_chat), (11, MessageSent demo_chat)] \<and>
   cm_id demo_chat = 210 \<and> m_id demo_hello_row = 1 \<and>
   messages (sv_db (snd (handle 210 ana_sock (SendMessage (Some demo_hello)) demo_server))) =
     [demo_hello_row]"
proof -
  have c: "create_message 100 demo_ana demo_hello demo_db [] = (Reply 201 1, demo_db_sent)"
    using demo_create_ok by (simp add: demo_db_sent_def)
  from send_message_not_persisted [where now = 210 and sock = ana_sock
      and ev = "SendMessage (Some demo_hello)" and sv = demo_server and msg = demo_hello
      and t = 100 and user = demo_ana and rq = demo_hello and db = demo_db and fs = "[]"
      and mid = 1 and db' = demo_db_sent] c
  have "sv_db (snd (handle 210 ana_sock (SendMessage (Some demo_hello)) demo_server)) =
          sv_db demo_server"
    and "fst (handle 210 ana_sock (SendMessage (Some demo_hello)) demo_server) =
          broadcast demo_server ana_sock (room_name (md_groupId demo_hello))
            (NewMessage (outgoing_message 210 ana_sock demo_hello)) @
          [(sock_id ana_sock, MessageSent (outgoing_message 210 ana_sock demo_hello))]"
    and "messages demo_db_sent = messages demo_db @ [new_message_row 100 demo_ana demo_hello demo_db]"
    by blast+
  then show ?thesis using c
    by (simp add: broadcast_def outgoing_message_def room_name_7 new_message_row_def
          next_message_id_def trim_def is_space_def sock_defs demo_defs demo_db_sent_def)
qed

section \<open>Properties of read marking\<close>














section \<open>Properties of the offline manager\<close>

lemma processAction_resolves:
  "\<not> awaits_fetch sp a \<Longrightarrow> fst (fst (processAction net sp a t))"
  by (auto simp: processAction_def syncMessage_def awaits_fetch_def split: if_splits prod.splits)

lemma processAction_warn: "ActionFailed b \<notin> set (snd (fst (processAction net sp a t)))"
  by (auto simp: processAction_def split: prod.splits)

lemma store_delete_set: "store_delete k tx = Some tx' \<Longrightarrow> set (tx_store tx') \<subseteq> set (tx_store tx)"
  by (auto simp: store_delete_def split: if_splits)

lemma store_delete_inactive: "\<not> tx_active tx \<Longrightarrow> store_delete k tx = None"
  by (simp add: store_delete_def)

lemma store_put_inactive: "\<not> tx_active tx \<Longrightarrow> store_put a tx = None"
  by (simp add: store_put_def)

lemma store_delete_active: "tx_active tx \<Longrightarrow> store_delete k tx \<noteq> None"
  by (simp add: store_delete_def)

text \<open>
  A scan never reaches the counting of an attempt with an active transaction: an action
  can only fail by its \<^verbatim>\<open>fetch\<close>, and after a \<^verbatim>\<open>fetch\<close> the transaction is finished. So
  whatever the network does, a scan only ever deletes records: no stored record is
  changed (no attempt count is stored) and no terminal failure is reported.
\<close>

lemma process_queue_never_counts:
  "process_queue net sp now snap (tx, t, out) = (tx', t', out') \<Longrightarrow>
     set (tx_store tx') \<subseteq> set (tx_store tx) \<and>
     (\<forall>b. ActionFailed b \<in> set out' \<longrightarrow> ActionFailed b \<in> set out)"
proof (induction snap arbitrary: tx t out)
  case Nil
  then show ?case by simp
next
  case (Cons a rest)
  let ?tx = "tx\<lparr>tx_active := tx_active tx \<and> \<not> awaits_fetch sp a\<rparr>"
  obtain ok warn t1 where pa: "processAction net sp a t = ((ok, warn), t1)"
    by (metis prod.exhaust)
  have w: "\<And>b. ActionFailed b \<notin> set warn"
    using processAction_warn [of _ net sp a t] pa by simp
  show ?case
  proof (cases "tx_active ?tx")
    case True
    then have "\<not> awaits_fetch sp a" by simp
    from processAction_resolves [OF this, of net t] pa have ok: ok by simp
    from True obtain tx2 where del: "store_delete (a_id a) ?tx = Some tx2"
      using store_delete_active [of ?tx "a_id a"] by auto
    with Cons.prems pa ok
    have run: "process_queue net sp now rest (tx2, t1, out @ warn) = (tx', t', out')"
      by simp
    from store_delete_set [OF del] have "set (tx_store tx2) \<subseteq> set (tx_store tx)" by simp
    with Cons.IH [OF run] w show ?thesis by auto
  next
    case False
    then have "store_delete (a_id a) ?tx = None" "store_put (failed_attempt now a) ?tx = None"
      by (simp_all add: store_delete_inactive store_put_inactive)
    with Cons.prems pa have "tx' = ?tx" "out' = out @ warn @ [FailedToProcess]"
      by (auto split: if_splits)
    with w show ?thesis by auto
  qed
qed

lemma scan_never_counts:
  assumes "idb c = Some store"
  shows "\<exists>store'. idb (fst (fst (processSyncQueue net now c t))) = Some store' \<and>
           set store' \<subseteq> set store"
    and "ActionFailed b \<notin> set (snd (processSyncQueue net now c t))"
proof -
  obtain tx' t' out' where
    pq: "process_queue net (has_socket c) now store (\<lparr>tx_active = True, tx_store = store\<rparr>, t, []) =
           (tx', t', out')"
    by (metis prod.exhaust)
  from process_queue_never_counts [OF pq]
  have s: "set (tx_store tx') \<subseteq> set store" and r: "ActionFailed b \<notin> set out'"
    by auto
  from assms pq s show "\<exists>store'. idb (fst (fst (processSyncQueue net now c t))) = Some store' \<and>
           set store' \<subseteq> set store"
    by (simp add: processSyncQueue_def)
  from assms pq r show "ActionFailed b \<notin> set (snd (processSyncQueue net now c t))"
    by (simp add: processSyncQueue_def)
qed

text \<open>
  A scan whose first record waits for a \<^verbatim>\<open>fetch\<close> changes nothing in the queue,
  whether the \<^verbatim>\<open>fetch\<close> succeeds or not: the console gets one line and the scan ends.
\<close>

lemma processAction_fetch_warn:
  "awaits_fetch sp a \<Longrightarrow> snd (fst (processAction net sp a t)) = []"
  by (simp add: processAction_def awaits_fetch_def split: prod.splits if_splits)

lemma process_queue_inactive:
  assumes "\<not> (tx_active tx \<and> \<not> awaits_fetch sp a)"
  shows "process_queue net sp now (a # rest) (tx, t, out) =
           (tx\<lparr>tx_active := False\<rparr>, snd (processAction net sp a t),
            out @ snd (fst (processAction net sp a t)) @ [FailedToProcess])"
proof -
  let ?tx = "tx\<lparr>tx_active := tx_active tx \<and> \<not> awaits_fetch sp a\<rparr>"
  obtain ok warn t1 where pa: "processAction net sp a t = ((ok, warn), t1)"
    by (metis prod.exhaust)
  from assms have tx: "?tx = tx\<lparr>tx_active := False\<rparr>" by simp
  have none: "store_delete (a_id a) (tx\<lparr>tx_active := False\<rparr>) = None"
    "store_put (failed_attempt now a) (tx\<lparr>tx_active := False\<rparr>) = None"
    by (simp_all add: store_delete_def store_put_def)
  show ?thesis
    unfolding process_queue.simps pa tx none by simp
qed

lemma fetch_scan_stops:
  assumes "idb c = Some (a # rest)" and "isOnline c" and "awaits_fetch (has_socket c) a"
  shows "fst (fst (processSyncQueue net now c t)) = c \<and>
         snd (processSyncQueue net now c t) = [FailedToProcess]"
proof -
  have "process_queue net (has_socket c) now (a # rest)
          (\<lparr>tx_active = True, tx_store = a # rest\<rparr>, t, []) =
        (\<lparr>tx_active = False, tx_store = a # rest\<rparr>, snd (processAction net (has_socket c) a t),
         [FailedToProcess])"
    using process_queue_inactive [of "\<lparr>tx_active = True, tx_store = a # rest\<rparr>" "has_socket c" a
        net now rest t "[]"] assms(3)
    by (simp add: processAction_fetch_warn)
  moreover have "c\<lparr>idb := Some (a # rest)\<rparr> = c"
    using assms(1) by (cases c) simp
  ultimately show ?thesis
    using assms(1,2) by (simp add: processSyncQueue_def)
qed

lemmas offline_eval =
  processSyncQueue_def processAction_def syncMessage_def awaits_fetch_def store_put_def
  store_delete_def failed_attempt_def attempts_of_def queueAction_def

text \<open>
  Claim C7 at its failing inputs. The manager is online without a socket and its store
  holds two message actions, the first with two counted attempts. On a network on which
  every request fails, the scan posts the first action, its \<^verbatim>\<open>fetch\<close> rejects, and the
  \<^verbatim>\<open>store.delete\<close> of the \<^verbatim>\<open>catch\<close> block throws on the finished transaction: the third
  failure is neither counted nor evicted nor reported, the second record is not tried,
  and the next scan does the same again. On a network on which every request succeeds
  the record is not removed either. An action queued while the database is not open
  goes to the in-memory queue, which no scan reads: it is never tried and never
  reported.
\<close>

theorem retry_never_counted:
  "idb demo_client = Some [demo_first, demo_second] \<and> attempts_of demo_first = 2 \<and>
   processSyncQueue dead_net 80 demo_client () = ((demo_client, ()), [FailedToProcess]) \<and>
   processSyncQueue dead_net 90 (fst (fst (processSyncQueue dead_net 80 demo_client ()))) () =
     ((demo_client, ()), [FailedToProcess]) \<and>
   processSyncQueue live_net 80 demo_client () = ((demo_client, ()), [FailedToProcess]) \<and>
   queueAction 40 (''message'', demo_hello) closed_client =
     (closed_client\<lparr>syncQueue := [(''message'', demo_hello)]\<rparr>, False) \<and>
   processSyncQueue live_net 80 (closed_client\<lparr>syncQueue := [(''message'', demo_hello)]\<rparr>) () =
     ((closed_client\<lparr>syncQueue := [(''message'', demo_hello)]\<rparr>, ()), []) \<and>
   processSyncQueue live_net 80
       (closed_client\<lparr>syncQueue := [(''message'', demo_hello)], idb := Some []\<rparr>) () =
     ((closed_client\<lparr>syncQueue := [(''message'', demo_hello)], idb := Some []\<rparr>, ()), [])"
  by (simp add: offline_eval dead_net_def live_net_def demo_client_def closed_client_def
        demo_first_def demo_second_def)

section \<open>Replay of a queued message\<close>

text \<open>
  The replay of one queued message by a manager that is online, on both branches of
  \<^verbatim>\<open>syncMessage\<close>. With a live socket, \<^verbatim>\<open>send-message\<close> is emitted and the promise
  resolves at once: on any network the record is deleted without a report, and the
  modelled server is left as it was. Without a socket the action is posted to the create
  route and the server keeps what the route stored, but the record stays in the queue
  whatever the answer is, so the next scan posts it again.
\<close>

lemma socket_replay:
  assumes "idb c = Some [a]" and "isOnline c" and "a_type a = ''message''" and "has_socket c"
  shows "fst (fst (processSyncQueue net now c t)) = c\<lparr>idb := Some []\<rparr> \<and>
         snd (processSyncQueue net now c t) = []"
  using assms
  by (simp add: processSyncQueue_def processAction_def syncMessage_def store_delete_def
        awaits_fetch_def split: prod.splits)

lemma socket_replay_server:
  assumes "idb c = Some [a]" and "isOnline c" and "a_type a = ''message''" and "has_socket c"
  shows "processSyncQueue (chat_server ts sock fs others) now c sv = ((c\<lparr>idb := Some []\<rparr>, sv), [])"
  using assms
  by (simp add: processSyncQueue_def processAction_def syncMessage_def store_delete_def
        awaits_fetch_def chat_server_def handle_def)

lemma http_replay:
  assumes "idb c = Some [a]" and "isOnline c" and "a_type a = ''message''" and "\<not> has_socket c"
    and "create_message ts (sock_user sock) (a_data a) (sv_db sv) fs = (resp, db')"
  shows "processSyncQueue (chat_server ts sock fs others) now c sv =
           ((c, sv\<lparr>sv_db := db'\<rparr>), [FailedToProcess])"
  using assms
  by (simp add: processSyncQueue_def processAction_def syncMessage_def store_delete_def
        store_put_def awaits_fetch_def chat_server_def)

text \<open>
  Claim C5 at its failing input. Ana's message was queued while offline; on reconnection
  the manager has a live socket and replays it. The record is deleted from the queue
  right after the emit, with no confirmation from the server, and the server's store
  holds no message row afterwards, where the claim asks for exactly one. The other
  branch of \<^verbatim>\<open>syncMessage\<close>, the POST to the create route, waits for the answer and
  the route stores the row, but the record is not removed from the queue there.
\<close>

theorem offline_replay_socket_loses_message:
  "processSyncQueue (chat_server 300 ana_sock [] False) 310
       (demo_client\<lparr>idb := Some [demo_second], has_socket := True\<rparr>)
       (demo_server\<lparr>sv_db := demo_db\<rparr>) =
     ((demo_client\<lparr>idb := Some [], has_socket := True\<rparr>, demo_server\<lparr>sv_db := demo_db\<rparr>), []) \<and>
   messages (sv_db (demo_server\<lparr>sv_db := demo_db\<rparr>)) = []"
  by (simp add: processSyncQueue_def processAction_def syncMessage_def store_delete_def
        awaits_fetch_def chat_server_def handle_def demo_client_def demo_second_def demo_db_def)

end
